theory Spec2Isabelle
  imports Complex_Main
begin

section \<open>Numbers, vectors, spectra and flags\<close>

text \<open>
  The header \<^verbatim>\<open>src/pbrt/bxdfs.h\<close> computes in \<^verbatim>\<open>Float\<close>. The embedding reads
  \<^verbatim>\<open>Float\<close> as the real numbers: rounding, infinities and NaN are outside the model.
  A theorem whose truth would rest on the value HOL gives to a division by zero carries
  the hypothesis that the divisor is not zero.
\<close>

type_synonym Float = real

datatype Vector3f = Vector3f (vec_x: Float) (vec_y: Float) (vec_z: Float)

datatype Point2f = Point2f (pt_x: Float) (pt_y: Float)

text \<open>
  \<^verbatim>\<open>SampledSpectrum\<close> is a fixed-width array of \<^verbatim>\<open>Float\<close>; the debugging output of
  \<^verbatim>\<open>LayeredBxDF::f\<close> prints the components 0 to 3, so the width is four. Arithmetic is
  componentwise, \<^verbatim>\<open>SampledSpectrum(c)\<close> fills every component with \<^verbatim>\<open>c\<close>, and the
  conversion to \<^verbatim>\<open>bool\<close> asks for a component that is not zero.
\<close>

datatype SampledSpectrum = SampledSpectrum Float Float Float Float

fun sp_map :: "(Float \<Rightarrow> Float) \<Rightarrow> SampledSpectrum \<Rightarrow> SampledSpectrum" where
  "sp_map g (SampledSpectrum a b c d) = SampledSpectrum (g a) (g b) (g c) (g d)"

fun sp_map2 :: "(Float \<Rightarrow> Float \<Rightarrow> Float) \<Rightarrow> SampledSpectrum \<Rightarrow> SampledSpectrum \<Rightarrow> SampledSpectrum" where
  "sp_map2 g (SampledSpectrum a b c d) (SampledSpectrum a' b' c' d') =
     SampledSpectrum (g a a') (g b b') (g c c') (g d d')"

definition sp_const :: "Float \<Rightarrow> SampledSpectrum" where
  "sp_const v = SampledSpectrum v v v v"

definition sp_scale :: "SampledSpectrum \<Rightarrow> Float \<Rightarrow> SampledSpectrum" where
  "sp_scale s v = sp_map (\<lambda>a. a * v) s"

definition sp_div :: "SampledSpectrum \<Rightarrow> Float \<Rightarrow> SampledSpectrum" where
  "sp_div s v = sp_map (\<lambda>a. a / v) s"

definition sp_mul :: "SampledSpectrum \<Rightarrow> SampledSpectrum \<Rightarrow> SampledSpectrum" where
  "sp_mul s t = sp_map2 (\<lambda>a b. a * b) s t"

definition sp_add :: "SampledSpectrum \<Rightarrow> SampledSpectrum \<Rightarrow> SampledSpectrum" where
  "sp_add s t = sp_map2 (\<lambda>a b. a + b) s t"

fun MaxComponentValue :: "SampledSpectrum \<Rightarrow> Float" where
  "MaxComponentValue (SampledSpectrum a b c d) = max (max (max a b) c) d"

fun sp_bool :: "SampledSpectrum \<Rightarrow> bool" where
  "sp_bool (SampledSpectrum a b c d) = (a \<noteq> 0 \<or> b \<noteq> 0 \<or> c \<noteq> 0 \<or> d \<noteq> 0)"

text \<open>
  Modelled from the spec: \<^verbatim>\<open>pbrt/util/math.h\<close> and \<^verbatim>\<open>pbrt/util/vecmath.h\<close> are not among
  the sources. The spec's direction is a vector of a local frame whose normal is the
  z-axis, the sign of the z-component naming the hemisphere; the helpers below are the
  vector algebra the header calls by name. \<^verbatim>\<open>Lerp(x, a, b)\<close> is read with the blending
  parameter first, as the header's own calls use it (\<^verbatim>\<open>Lerp(FH, .04f, 1.0f)\<close> for
  Schlick's Fresnel term).
\<close>

definition InvPi :: Float where
  "InvPi = 1 / pi"

definition Sqr :: "Float \<Rightarrow> Float" where
  "Sqr v = v * v"

definition Lerp :: "Float \<Rightarrow> Float \<Rightarrow> Float \<Rightarrow> Float" where
  "Lerp t a b = (1 - t) * a + t * b"

definition sp_Lerp :: "Float \<Rightarrow> SampledSpectrum \<Rightarrow> SampledSpectrum \<Rightarrow> SampledSpectrum" where
  "sp_Lerp t a b = sp_add (sp_scale a (1 - t)) (sp_scale b t)"

definition Clamp :: "Float \<Rightarrow> Float \<Rightarrow> Float \<Rightarrow> Float" where
  "Clamp v lo hi = (if v < lo then lo else if v > hi then hi else v)"

definition vneg :: "Vector3f \<Rightarrow> Vector3f" where
  "vneg w = Vector3f (- vec_x w) (- vec_y w) (- vec_z w)"

definition vadd :: "Vector3f \<Rightarrow> Vector3f \<Rightarrow> Vector3f" where
  "vadd a b = Vector3f (vec_x a + vec_x b) (vec_y a + vec_y b) (vec_z a + vec_z b)"

definition vsub :: "Vector3f \<Rightarrow> Vector3f \<Rightarrow> Vector3f" where
  "vsub a b = Vector3f (vec_x a - vec_x b) (vec_y a - vec_y b) (vec_z a - vec_z b)"

definition vscale :: "Float \<Rightarrow> Vector3f \<Rightarrow> Vector3f" where
  "vscale s w = Vector3f (s * vec_x w) (s * vec_y w) (s * vec_z w)"

definition flip_z :: "Vector3f \<Rightarrow> Vector3f" where
  "flip_z w = Vector3f (vec_x w) (vec_y w) (vec_z w * (- 1))"

definition Dot :: "Vector3f \<Rightarrow> Vector3f \<Rightarrow> Float" where
  "Dot a b = vec_x a * vec_x b + vec_y a * vec_y b + vec_z a * vec_z b"

definition AbsDot :: "Vector3f \<Rightarrow> Vector3f \<Rightarrow> Float" where
  "AbsDot a b = \<bar>Dot a b\<bar>"

definition Cross :: "Vector3f \<Rightarrow> Vector3f \<Rightarrow> Vector3f" where
  "Cross a b = Vector3f (vec_y a * vec_z b - vec_z a * vec_y b)
                        (vec_z a * vec_x b - vec_x a * vec_z b)
                        (vec_x a * vec_y b - vec_y a * vec_x b)"

definition LengthSquared :: "Vector3f \<Rightarrow> Float" where
  "LengthSquared w = Sqr (vec_x w) + Sqr (vec_y w) + Sqr (vec_z w)"

definition Length :: "Vector3f \<Rightarrow> Float" where
  "Length w = sqrt (LengthSquared w)"

definition Normalize :: "Vector3f \<Rightarrow> Vector3f" where
  "Normalize w = Vector3f (vec_x w / Length w) (vec_y w / Length w) (vec_z w / Length w)"

definition Reflect :: "Vector3f \<Rightarrow> Vector3f \<Rightarrow> Vector3f" where
  "Reflect wo n = vadd (vneg wo) (vscale (2 * Dot wo n) n)"

definition FaceForward :: "Vector3f \<Rightarrow> Vector3f \<Rightarrow> Vector3f" where
  "FaceForward n v = (if Dot n v < 0 then vneg n else n)"

definition CosTheta :: "Vector3f \<Rightarrow> Float" where
  "CosTheta w = vec_z w"

definition AbsCosTheta :: "Vector3f \<Rightarrow> Float" where
  "AbsCosTheta w = \<bar>vec_z w\<bar>"

definition TanTheta :: "Vector3f \<Rightarrow> Float" where
  "TanTheta w = sqrt (max 0 (1 - Sqr (vec_z w))) / vec_z w"

definition SameHemisphere :: "Vector3f \<Rightarrow> Vector3f \<Rightarrow> bool" where
  "SameHemisphere w wp = (vec_z w * vec_z wp > 0)"

text \<open>
  Modelled from the spec: \<^verbatim>\<open>CosineHemispherePDF\<close> of \<^verbatim>\<open>pbrt/util/sampling.h\<close> is not
  among the sources; the spec's cosine-weighted density, which
  \<^verbatim>\<open>NormalizedFresnelBxDF::PDF\<close> writes out as \<^verbatim>\<open>AbsCosTheta(wi) * InvPi\<close>.
\<close>

definition CosineHemispherePDF :: "Float \<Rightarrow> Float" where
  "CosineHemispherePDF cosTheta = cosTheta * InvPi"

datatype TransportMode = Radiance | Importance

text \<open>\<^verbatim>\<open>!mode\<close> is the other transport mode.\<close>

fun flip_mode :: "TransportMode \<Rightarrow> TransportMode" where
  "flip_mode Radiance = Importance"
| "flip_mode Importance = Radiance"

text \<open>
  Modelled from the spec: the flag types of \<^verbatim>\<open>pbrt/base/bxdf.h\<close> are not among the
  sources. \<^verbatim>\<open>BxDFFlags\<close> is a set of bits over the transport kind and the roughness
  class, the empty set being \<^verbatim>\<open>Unset\<close>; \<^verbatim>\<open>BxDFReflTransFlags\<close> restricts a request to
  reflection, to transmission, or to both.
\<close>

datatype FlagBit = Reflection | Transmission | Diffuse | Glossy | Specular

type_synonym BxDFFlags = "FlagBit set"

definition Unset :: BxDFFlags where
  "Unset = {}"

definition DiffuseReflection :: BxDFFlags where
  "DiffuseReflection = {Diffuse, Reflection}"

definition DiffuseTransmission :: BxDFFlags where
  "DiffuseTransmission = {Diffuse, Transmission}"

definition GlossyReflection :: BxDFFlags where
  "GlossyReflection = {Glossy, Reflection}"

definition SpecularReflection :: BxDFFlags where
  "SpecularReflection = {Specular, Reflection}"

definition SpecularTransmission :: BxDFFlags where
  "SpecularTransmission = {Specular, Transmission}"

definition IsReflective :: "BxDFFlags \<Rightarrow> bool" where
  "IsReflective fl = (Reflection \<in> fl)"

definition IsTransmissive :: "BxDFFlags \<Rightarrow> bool" where
  "IsTransmissive fl = (Transmission \<in> fl)"

definition IsDiffuse :: "BxDFFlags \<Rightarrow> bool" where
  "IsDiffuse fl = (Diffuse \<in> fl)"

definition IsGlossy :: "BxDFFlags \<Rightarrow> bool" where
  "IsGlossy fl = (Glossy \<in> fl)"

definition IsSpecular :: "BxDFFlags \<Rightarrow> bool" where
  "IsSpecular fl = (Specular \<in> fl)"

definition IsNonSpecular :: "BxDFFlags \<Rightarrow> bool" where
  "IsNonSpecular fl = (Diffuse \<in> fl \<or> Glossy \<in> fl)"

datatype BxDFReflTransFlags = RT_Unset | RT_Reflection | RT_Transmission | RT_All

text \<open>\<^verbatim>\<open>sampleFlags & BxDFReflTransFlags::Reflection\<close>, and the same for transmission.\<close>

fun has_Reflection :: "BxDFReflTransFlags \<Rightarrow> bool" where
  "has_Reflection RT_Unset = False"
| "has_Reflection RT_Reflection = True"
| "has_Reflection RT_Transmission = False"
| "has_Reflection RT_All = True"

fun has_Transmission :: "BxDFReflTransFlags \<Rightarrow> bool" where
  "has_Transmission RT_Unset = False"
| "has_Transmission RT_Reflection = False"
| "has_Transmission RT_Transmission = True"
| "has_Transmission RT_All = True"

text \<open>
  Modelled from the spec: \<^verbatim>\<open>BSDFSample\<close> of \<^verbatim>\<open>pbrt/base/bxdf.h\<close> is not among the
  sources; the spec's ScatterSample, with the defaults it gives (relative index 1, the
  density not proportional). A value-initialised sample, which \<^verbatim>\<open>return {}\<close> yields
  where the return type is \<^verbatim>\<open>BSDFSample\<close> itself, has a zero spectrum, a zero direction,
  density zero and no flag.
\<close>

record BSDFSample =
  bs_f :: SampledSpectrum
  bs_wi :: Vector3f
  bs_pdf :: Float
  bs_flags :: BxDFFlags
  bs_eta :: Float
  bs_pdfIsProportional :: bool

definition mk_BSDFSample :: "SampledSpectrum \<Rightarrow> Vector3f \<Rightarrow> Float \<Rightarrow> BxDFFlags \<Rightarrow> BSDFSample" where
  "mk_BSDFSample fv w p fl =
     \<lparr>bs_f = fv, bs_wi = w, bs_pdf = p, bs_flags = fl, bs_eta = 1, bs_pdfIsProportional = False\<rparr>"

definition empty_BSDFSample :: BSDFSample where
  "empty_BSDFSample =
     \<lparr>bs_f = sp_const 0, bs_wi = Vector3f 0 0 0, bs_pdf = 0, bs_flags = Unset, bs_eta = 1,
      bs_pdfIsProportional = False\<rparr>"

definition bs_IsReflection :: "BSDFSample \<Rightarrow> bool" where
  "bs_IsReflection s = IsReflective (bs_flags s)"

definition bs_IsTransmission :: "BSDFSample \<Rightarrow> bool" where
  "bs_IsTransmission s = IsTransmissive (bs_flags s)"

definition bs_IsSpecular :: "BSDFSample \<Rightarrow> bool" where
  "bs_IsSpecular s = IsSpecular (bs_flags s)"

section \<open>Collaborators\<close>

text \<open>
  The functions the header calls and does not define (Fresnel terms, samplers, the phase
  function, the random number generator and two constants) are parameters of the
  embedding, gathered in one record. The generator \<^verbatim>\<open>RNG rng(Hash(...), Hash(...))\<close> is
  the stream of its successive \<^verbatim>\<open>Uniform\<close> values, given by position; a walk threads
  the position of the next value.
\<close>

record PhaseFunctionSample =
  ps_p :: Float
  ps_wi :: Vector3f
  ps_pdf :: Float

record Collaborators =
  FrDielectric :: "Float \<Rightarrow> Float \<Rightarrow> Float"
  FrComplex :: "Float \<Rightarrow> SampledSpectrum \<Rightarrow> SampledSpectrum \<Rightarrow> SampledSpectrum"
  FresnelMoment1 :: "Float \<Rightarrow> Float"
  SampleCosineHemisphere :: "Point2f \<Rightarrow> Vector3f"
  PowerHeuristic :: "int \<Rightarrow> Float \<Rightarrow> int \<Rightarrow> Float \<Rightarrow> Float"
  SampleExponential :: "Float \<Rightarrow> Float \<Rightarrow> Float"
  FastExp :: "Float \<Rightarrow> Float"
  HG_p :: "Float \<Rightarrow> Vector3f \<Rightarrow> Vector3f \<Rightarrow> Float"
  HG_PDF :: "Float \<Rightarrow> Vector3f \<Rightarrow> Vector3f \<Rightarrow> Float"
  HG_Sample_p :: "Float \<Rightarrow> Vector3f \<Rightarrow> Point2f \<Rightarrow> PhaseFunctionSample option"
  OneMinusEpsilon :: Float
  Float_min :: Float
  RNG_dirs :: "Vector3f \<Rightarrow> Vector3f \<Rightarrow> nat \<Rightarrow> Float"
  RNG_sample :: "Vector3f \<Rightarrow> Float \<Rightarrow> Point2f \<Rightarrow> nat \<Rightarrow> Float"

text \<open>The lambda \<^verbatim>\<open>r\<close>: the next value of the stream, capped at \<^verbatim>\<open>OneMinusEpsilon\<close>.\<close>

definition draw :: "Collaborators \<Rightarrow> (nat \<Rightarrow> Float) \<Rightarrow> nat \<Rightarrow> Float" where
  "draw env rng n = min (rng n) (OneMinusEpsilon env)"

text \<open>
  \<^verbatim>\<open>TrowbridgeReitzDistribution\<close> (\<^verbatim>\<open>pbrt/util/scattering.h\<close>) is not among the sources
  either: a microfacet distribution is the record of its operations.
\<close>

record TrowbridgeReitzDistribution =
  mf_D :: "Vector3f \<Rightarrow> Float"
  mf_G :: "Vector3f \<Rightarrow> Vector3f \<Rightarrow> Float"
  mf_PDF :: "Vector3f \<Rightarrow> Vector3f \<Rightarrow> Float"
  mf_Sample_wm :: "Vector3f \<Rightarrow> Point2f \<Rightarrow> Vector3f"
  mf_EffectivelySmooth :: bool

section \<open>Simple lobes\<close>

subsection \<open>DiffuseBxDF\<close>

record DiffuseBxDF =
  diffuse_R :: SampledSpectrum

definition DiffuseBxDF_f :: "DiffuseBxDF \<Rightarrow> Vector3f \<Rightarrow> Vector3f \<Rightarrow> TransportMode \<Rightarrow> SampledSpectrum" where
  "DiffuseBxDF_f b wo wi mode =
     (if \<not> SameHemisphere wo wi then sp_const 0 else sp_scale (diffuse_R b) InvPi)"

definition DiffuseBxDF_Sample_f ::
  "Collaborators \<Rightarrow> DiffuseBxDF \<Rightarrow> Vector3f \<Rightarrow> Float \<Rightarrow> Point2f \<Rightarrow> TransportMode \<Rightarrow>
   BxDFReflTransFlags \<Rightarrow> BSDFSample option" where
  "DiffuseBxDF_Sample_f env b wo uc u mode sampleFlags =
     (if \<not> has_Reflection sampleFlags then None
      else
        let wi0 = SampleCosineHemisphere env u;
            wi = (if vec_z wo < 0 then flip_z wi0 else wi0);
            pdf = CosineHemispherePDF (AbsCosTheta wi)
        in Some (mk_BSDFSample (sp_scale (diffuse_R b) InvPi) wi pdf DiffuseReflection))"

definition DiffuseBxDF_PDF ::
  "DiffuseBxDF \<Rightarrow> Vector3f \<Rightarrow> Vector3f \<Rightarrow> TransportMode \<Rightarrow> BxDFReflTransFlags \<Rightarrow> Float" where
  "DiffuseBxDF_PDF b wo wi mode sampleFlags =
     (if \<not> has_Reflection sampleFlags then 0
      else if \<not> SameHemisphere wo wi then 0
      else CosineHemispherePDF (AbsCosTheta wi))"

definition DiffuseBxDF_Flags :: "DiffuseBxDF \<Rightarrow> BxDFFlags" where
  "DiffuseBxDF_Flags b = (if sp_bool (diffuse_R b) then DiffuseReflection else Unset)"

subsection \<open>DiffuseTransmissionBxDF\<close>

record DiffuseTransmissionBxDF =
  dt_R :: SampledSpectrum
  dt_T :: SampledSpectrum

definition DiffuseTransmissionBxDF_f ::
  "DiffuseTransmissionBxDF \<Rightarrow> Vector3f \<Rightarrow> Vector3f \<Rightarrow> TransportMode \<Rightarrow> SampledSpectrum" where
  "DiffuseTransmissionBxDF_f b wo wi mode =
     (if SameHemisphere wo wi then sp_scale (dt_R b) InvPi else sp_scale (dt_T b) InvPi)"

definition DiffuseTransmissionBxDF_Sample_f ::
  "Collaborators \<Rightarrow> DiffuseTransmissionBxDF \<Rightarrow> Vector3f \<Rightarrow> Float \<Rightarrow> Point2f \<Rightarrow> TransportMode \<Rightarrow>
   BxDFReflTransFlags \<Rightarrow> BSDFSample option" where
  "DiffuseTransmissionBxDF_Sample_f env b wo uc u mode sampleFlags =
     (let pr = (if has_Reflection sampleFlags then MaxComponentValue (dt_R b) else 0);
          pt = (if has_Transmission sampleFlags then MaxComponentValue (dt_T b) else 0)
      in if pr = 0 \<and> pt = 0 then None
         else if uc < pr / (pr + pt) then
           (let wi0 = SampleCosineHemisphere env u;
                wi = (if vec_z wo < 0 then flip_z wi0 else wi0);
                pdf = CosineHemispherePDF (AbsCosTheta wi) * pr / (pr + pt)
            in Some (mk_BSDFSample (DiffuseTransmissionBxDF_f b wo wi mode) wi pdf DiffuseReflection))
         else
           (let wi0 = SampleCosineHemisphere env u;
                wi = (if vec_z wo > 0 then flip_z wi0 else wi0);
                pdf = CosineHemispherePDF (AbsCosTheta wi) * pt / (pr + pt)
            in Some (mk_BSDFSample (DiffuseTransmissionBxDF_f b wo wi mode) wi pdf
                       DiffuseTransmission)))"

definition DiffuseTransmissionBxDF_PDF ::
  "DiffuseTransmissionBxDF \<Rightarrow> Vector3f \<Rightarrow> Vector3f \<Rightarrow> TransportMode \<Rightarrow> BxDFReflTransFlags \<Rightarrow> Float" where
  "DiffuseTransmissionBxDF_PDF b wo wi mode sampleFlags =
     (let pr = (if has_Reflection sampleFlags then MaxComponentValue (dt_R b) else 0);
          pt = (if has_Transmission sampleFlags then MaxComponentValue (dt_T b) else 0)
      in if pr = 0 \<and> pt = 0 then 0
         else if SameHemisphere wo wi then pr / (pr + pt) * CosineHemispherePDF (AbsCosTheta wi)
         else pt / (pr + pt) * CosineHemispherePDF (AbsCosTheta wi))"

definition DiffuseTransmissionBxDF_Flags :: "DiffuseTransmissionBxDF \<Rightarrow> BxDFFlags" where
  "DiffuseTransmissionBxDF_Flags b =
     (if sp_bool (dt_R b) then DiffuseReflection else Unset)
     \<union> (if sp_bool (dt_T b) then DiffuseTransmission else Unset)"

subsection \<open>ThinDielectricBxDF\<close>

record ThinDielectricBxDF =
  thin_eta :: Float

definition ThinDielectricBxDF_f ::
  "ThinDielectricBxDF \<Rightarrow> Vector3f \<Rightarrow> Vector3f \<Rightarrow> TransportMode \<Rightarrow> SampledSpectrum" where
  "ThinDielectricBxDF_f b wo wi mode = sp_const 0"

definition ThinDielectricBxDF_Sample_f ::
  "Collaborators \<Rightarrow> ThinDielectricBxDF \<Rightarrow> Vector3f \<Rightarrow> Float \<Rightarrow> Point2f \<Rightarrow> TransportMode \<Rightarrow>
   BxDFReflTransFlags \<Rightarrow> BSDFSample option" where
  "ThinDielectricBxDF_Sample_f env b wo uc u mode sampleFlags =
     (let R0 = FrDielectric env (AbsCosTheta wo) (thin_eta b);
          T0 = 1 - R0;
          R = (if R0 < 1 then R0 + Sqr T0 * R0 / (1 - Sqr R0) else R0);
          T = (if R0 < 1 then 1 - R else T0);
          pr = (if has_Reflection sampleFlags then R else 0);
          pt = (if has_Transmission sampleFlags then T else 0)
      in if pr = 0 \<and> pt = 0 then None
         else if uc < pr / (pr + pt) then
           (let wi = Vector3f (- vec_x wo) (- vec_y wo) (vec_z wo);
                fr = sp_const (R / AbsCosTheta wi)
            in Some (mk_BSDFSample fr wi (pr / (pr + pt)) SpecularReflection))
         else
           (let wi = vneg wo;
                ft = sp_const (T / AbsCosTheta wi)
            in Some (mk_BSDFSample ft wi (pt / (pr + pt)) SpecularTransmission)))"

definition ThinDielectricBxDF_PDF ::
  "ThinDielectricBxDF \<Rightarrow> Vector3f \<Rightarrow> Vector3f \<Rightarrow> TransportMode \<Rightarrow> BxDFReflTransFlags \<Rightarrow> Float" where
  "ThinDielectricBxDF_PDF b wo wi mode sampleFlags = 0"

definition ThinDielectricBxDF_Flags :: "ThinDielectricBxDF \<Rightarrow> BxDFFlags" where
  "ThinDielectricBxDF_Flags b = {Reflection} \<union> {Transmission} \<union> {Specular}"

subsection \<open>ConductorBxDF\<close>

record ConductorBxDF =
  cond_mfDistrib :: TrowbridgeReitzDistribution
  cond_eta :: SampledSpectrum
  cond_k :: SampledSpectrum

definition ConductorBxDF_Flags :: "ConductorBxDF \<Rightarrow> BxDFFlags" where
  "ConductorBxDF_Flags b =
     (if mf_EffectivelySmooth (cond_mfDistrib b) then SpecularReflection else GlossyReflection)"

definition ConductorBxDF_Sample_f ::
  "Collaborators \<Rightarrow> ConductorBxDF \<Rightarrow> Vector3f \<Rightarrow> Float \<Rightarrow> Point2f \<Rightarrow> TransportMode \<Rightarrow>
   BxDFReflTransFlags \<Rightarrow> BSDFSample option" where
  "ConductorBxDF_Sample_f env b wo uc u mode sampleFlags =
     (if \<not> has_Reflection sampleFlags then None
      else if mf_EffectivelySmooth (cond_mfDistrib b) then
        (let wi = Vector3f (- vec_x wo) (- vec_y wo) (vec_z wo);
             fv = sp_div (FrComplex env (AbsCosTheta wi) (cond_eta b) (cond_k b)) (AbsCosTheta wi)
         in Some (mk_BSDFSample fv wi 1 SpecularReflection))
      else if vec_z wo = 0 then None
      else
        (let wm = mf_Sample_wm (cond_mfDistrib b) wo u;
             wi = Reflect wo wm
         in if \<not> SameHemisphere wo wi then None
            else
              (let pdf = mf_PDF (cond_mfDistrib b) wo wm / (4 * AbsDot wo wm);
                   cosTheta_o = AbsCosTheta wo;
                   cosTheta_i = AbsCosTheta wi
               in if cosTheta_i = 0 \<or> cosTheta_o = 0 then None
                  else
                    (let F = FrComplex env (AbsDot wo wm) (cond_eta b) (cond_k b);
                         fv = sp_div (sp_scale (sp_scale F (mf_D (cond_mfDistrib b) wm))
                                        (mf_G (cond_mfDistrib b) wo wi))
                                (4 * cosTheta_i * cosTheta_o)
                     in Some (mk_BSDFSample fv wi pdf GlossyReflection)))))"

definition ConductorBxDF_f ::
  "Collaborators \<Rightarrow> ConductorBxDF \<Rightarrow> Vector3f \<Rightarrow> Vector3f \<Rightarrow> TransportMode \<Rightarrow> SampledSpectrum" where
  "ConductorBxDF_f env b wo wi mode =
     (if \<not> SameHemisphere wo wi then sp_const 0
      else if mf_EffectivelySmooth (cond_mfDistrib b) then sp_const 0
      else
        (let cosTheta_o = AbsCosTheta wo;
             cosTheta_i = AbsCosTheta wi
         in if cosTheta_i = 0 \<or> cosTheta_o = 0 then sp_const 0
            else
              (let wm0 = vadd wi wo
               in if LengthSquared wm0 = 0 then sp_const 0
                  else
                    (let wm = Normalize wm0;
                         F = FrComplex env (AbsDot wo wm) (cond_eta b) (cond_k b)
                     in sp_div (sp_scale (sp_scale F (mf_D (cond_mfDistrib b) wm))
                                  (mf_G (cond_mfDistrib b) wo wi))
                          (4 * cosTheta_i * cosTheta_o)))))"

definition ConductorBxDF_PDF ::
  "ConductorBxDF \<Rightarrow> Vector3f \<Rightarrow> Vector3f \<Rightarrow> TransportMode \<Rightarrow> BxDFReflTransFlags \<Rightarrow> Float" where
  "ConductorBxDF_PDF b wo wi mode sampleFlags =
     (if \<not> has_Reflection sampleFlags then 0
      else if \<not> SameHemisphere wo wi then 0
      else if mf_EffectivelySmooth (cond_mfDistrib b) then 0
      else
        (let wm0 = vadd wo wi
         in if LengthSquared wm0 = 0 then 0
            else
              (let wm = FaceForward (Normalize wm0) (Vector3f 0 0 1)
               in mf_PDF (cond_mfDistrib b) wo wm / (4 * AbsDot wo wm))))"

subsection \<open>NormalizedFresnelBxDF\<close>

record NormalizedFresnelBxDF =
  nf_eta :: Float

definition NormalizedFresnelBxDF_f ::
  "Collaborators \<Rightarrow> NormalizedFresnelBxDF \<Rightarrow> Vector3f \<Rightarrow> Vector3f \<Rightarrow> TransportMode \<Rightarrow>
   SampledSpectrum" where
  "NormalizedFresnelBxDF_f env b wo wi mode =
     (if \<not> SameHemisphere wo wi then sp_const 0
      else
        (let c = 1 - 2 * FresnelMoment1 env (1 / nf_eta b);
             fv = sp_const ((1 - FrDielectric env (CosTheta wi) (nf_eta b)) / (c * pi))
         in if mode = Radiance then sp_scale fv (Sqr (nf_eta b)) else fv))"

definition NormalizedFresnelBxDF_PDF ::
  "NormalizedFresnelBxDF \<Rightarrow> Vector3f \<Rightarrow> Vector3f \<Rightarrow> TransportMode \<Rightarrow> BxDFReflTransFlags \<Rightarrow> Float" where
  "NormalizedFresnelBxDF_PDF b wo wi mode sampleFlags =
     (if \<not> has_Reflection sampleFlags then 0
      else if SameHemisphere wo wi then AbsCosTheta wi * InvPi else 0)"

definition NormalizedFresnelBxDF_Flags :: "NormalizedFresnelBxDF \<Rightarrow> BxDFFlags" where
  "NormalizedFresnelBxDF_Flags b = {Reflection} \<union> {Diffuse}"

text \<open>
  The return type of \<^verbatim>\<open>NormalizedFresnelBxDF::Sample_f\<close> is \<^verbatim>\<open>BSDFSample\<close>, not
  \<^verbatim>\<open>pstd::optional<BSDFSample>\<close>: its \<^verbatim>\<open>return {}\<close> is a value-initialised sample.
\<close>

definition NormalizedFresnelBxDF_Sample_f ::
  "Collaborators \<Rightarrow> NormalizedFresnelBxDF \<Rightarrow> Vector3f \<Rightarrow> Float \<Rightarrow> Point2f \<Rightarrow> TransportMode \<Rightarrow>
   BxDFReflTransFlags \<Rightarrow> BSDFSample" where
  "NormalizedFresnelBxDF_Sample_f env b wo uc u mode sampleFlags =
     (if \<not> has_Reflection sampleFlags then empty_BSDFSample
      else
        (let wi0 = SampleCosineHemisphere env u;
             wi = (if vec_z wo < 0 then flip_z wi0 else wi0)
         in mk_BSDFSample (NormalizedFresnelBxDF_f env b wo wi mode) wi
              (NormalizedFresnelBxDF_PDF b wo wi mode sampleFlags) DiffuseReflection))"

section \<open>DisneyBxDF\<close>

record DisneyBxDF =
  dis_color :: SampledSpectrum
  dis_eta :: Float
  dis_twoSided :: bool
  dis_isSpecular :: bool
  dis_metallic :: Float
  dis_subsurface :: Float
  dis_specular :: Float
  dis_roughness :: Float
  dis_specularTint :: Float
  dis_anisotropic :: Float
  dis_sheen :: Float
  dis_sheenTint :: Float
  dis_clearcoat :: Float
  dis_clearcoatGloss :: Float
  dis_transmission :: Float
  dis_Lum :: Float

text \<open>The constructor: it stores its arguments and fixes four members.\<close>

definition mk_DisneyBxDF ::
  "SampledSpectrum \<Rightarrow> Float \<Rightarrow> Float \<Rightarrow> Float \<Rightarrow> Float \<Rightarrow> Float \<Rightarrow> Float \<Rightarrow> Float \<Rightarrow> Float \<Rightarrow> Float \<Rightarrow>
   Float \<Rightarrow> bool \<Rightarrow> DisneyBxDF" where
  "mk_DisneyBxDF color eta roughness specular clearcoat metallic subsurface sheen sheenTint
     clearcoatGloss Lum isSpecular =
     \<lparr>dis_color = color, dis_eta = eta, dis_twoSided = True, dis_isSpecular = isSpecular,
      dis_metallic = metallic, dis_subsurface = subsurface, dis_specular = specular,
      dis_roughness = roughness, dis_specularTint = 0, dis_anisotropic = 0, dis_sheen = sheen,
      dis_sheenTint = sheenTint, dis_clearcoat = clearcoat, dis_clearcoatGloss = clearcoatGloss,
      dis_transmission = 0, dis_Lum = Lum\<rparr>"

definition SchlickFresnel :: "Float \<Rightarrow> Float" where
  "SchlickFresnel v = (let m = Clamp (1 - v) 0 1; m2 = m * m in m2 * m2 * m)"

definition GTR1 :: "Float \<Rightarrow> Float \<Rightarrow> Float" where
  "GTR1 cosTheta a =
     (if a \<ge> 1 then InvPi
      else let a2 = a * a;
               t = 1 + (a2 - 1) * cosTheta * cosTheta
           in (a2 - 1) / (pi * ln a2 * t))"

definition GTR2 :: "Float \<Rightarrow> Float \<Rightarrow> Float" where
  "GTR2 cosTheta a =
     (let a2 = a * a;
          t = 1 + (a2 - 1) * cosTheta * cosTheta
      in a2 / (pi * t * t))"

definition SmithGGXVN :: "Vector3f \<Rightarrow> Float \<Rightarrow> Float" where
  "SmithGGXVN w a =
     (let a2 = a * a;
          th = TanTheta w;
          th2 = th * th;
          root = sqrt (1 + a2 * th2)
      in 2 / (1 + root))"

definition SchlickF0FromEta :: "Float \<Rightarrow> Float" where
  "SchlickF0FromEta eta = Sqr (eta - 1) / Sqr (eta + 1)"

text \<open>
  \<^verbatim>\<open>InvSqrtf\<close> is not among the sources: it is read as the reciprocal of the square
  root. \<^verbatim>\<open>powf\<close> is \<open>powr\<close> and \<^verbatim>\<open>logf\<close> is \<open>ln\<close>.
\<close>

definition DisneyBxDF_Sample_wm :: "DisneyBxDF \<Rightarrow> Vector3f \<Rightarrow> Point2f \<Rightarrow> Vector3f" where
  "DisneyBxDF_Sample_wm d w u =
     (let ax = dis_roughness d;
          ay = dis_roughness d;
          V = w;
          r1 = pt_x u;
          r2 = pt_y u;
          Vh = Normalize (Vector3f (ax * vec_x V) (ay * vec_y V) (vec_z V));
          lensq = vec_x Vh * vec_x Vh + vec_y Vh * vec_y Vh;
          T1 = (if lensq > 0 then vscale (1 / sqrt lensq) (Vector3f (- vec_y Vh) (vec_x Vh) 0)
                else Vector3f 1 0 0);
          T2 = Cross Vh T1;
          r = sqrt r1;
          phi = 2 * pi * r2;
          t1 = r * cos phi;
          t2a = r * sin phi;
          s = (1 / 2) * (1 + vec_z Vh);
          t2 = (1 - s) * sqrt (1 - t1 * t1) + s * t2a;
          Nh = vadd (vadd (vscale t1 T1) (vscale t2 T2))
                 (vscale (sqrt (max 0 (1 - t1 * t1 - t2 * t2))) Vh)
      in Normalize (Vector3f (ax * vec_x Nh) (ay * vec_y Nh) (max 0 (vec_z Nh))))"

definition SampleCoating :: "DisneyBxDF \<Rightarrow> Vector3f \<Rightarrow> Point2f \<Rightarrow> Vector3f" where
  "SampleCoating d wo u =
     (let gloss = Lerp (dis_clearcoatGloss d) (1 / 10) (1 / 1000);
          alpha2 = gloss * gloss;
          cosTheta = sqrt (max (1 / 10000) ((1 - alpha2 powr (1 - pt_x u)) / (1 - alpha2)));
          sinTheta = sqrt (max (1 / 10000) (1 - cosTheta * cosTheta));
          phi = 2 * pi * pt_y u;
          wh0 = Vector3f (sinTheta * cos phi) (sinTheta * sin phi) cosTheta;
          wh = (if CosTheta wo * CosTheta wh0 \<le> 0 then vscale (- 1) wh0 else wh0)
      in Normalize (vsub (vscale (2 * Dot wh wo) wh) wo))"

text \<open>\<^verbatim>\<open>ComputeWeights\<close> writes three references; the model returns \<open>(sr, dr, cr)\<close>.\<close>

definition ComputeWeights :: "DisneyBxDF \<Rightarrow> Float \<times> Float \<times> Float" where
  "ComputeWeights d =
     (let m = dis_metallic d;
          dd = 1 - dis_metallic d;
          dw = dd;
          sw = m + dd;
          cw = dis_clearcoat d;
          norm = 1 / (sw + dw + cw)
      in (sw * norm, dw * norm, cw * norm))"

definition DisneyDiffuseF :: "DisneyBxDF \<Rightarrow> Vector3f \<Rightarrow> Vector3f \<Rightarrow> Vector3f \<Rightarrow> SampledSpectrum" where
  "DisneyDiffuseF d wo wi wh =
     (let rc = max (1 / 1000) (dis_roughness d);
          Fo = SchlickFresnel (CosTheta wo);
          Fi = SchlickFresnel (CosTheta wi);
          c2 = Dot wi wh;
          Fd90 = 1 / 2 + 2 * rc * c2 * c2;
          Fd = Lerp Fi 1 Fd90 * Lerp Fo 1 Fd90
      in sp_scale (sp_scale (sp_scale (dis_color d) InvPi) Fd) (1 - dis_metallic d))"

definition DisneySubsurfaceF :: "DisneyBxDF \<Rightarrow> Vector3f \<Rightarrow> Vector3f \<Rightarrow> Vector3f \<Rightarrow> SampledSpectrum" where
  "DisneySubsurfaceF d wo wi wh =
     (let rc = max (1 / 1000) (dis_roughness d);
          cosWo = AbsCosTheta wo;
          cosWi = AbsCosTheta wi;
          FL = SchlickFresnel cosWi;
          FV = SchlickFresnel cosWo;
          c2 = Dot wi wh;
          Fss90 = c2 * c2 * rc;
          Fss = Lerp FL 1 Fss90 * Lerp FV 1 Fss90;
          ss = (5 / 4) * (Fss * (1 / (cosWi + cosWo) - 1 / 2) + 1 / 2)
      in sp_scale (sp_scale (dis_color d) (InvPi * ss)) (1 - dis_metallic d))"

definition BRDF_F :: "Collaborators \<Rightarrow> DisneyBxDF \<Rightarrow> Vector3f \<Rightarrow> Vector3f \<Rightarrow> SampledSpectrum" where
  "BRDF_F env d wo0 wi0 =
     (let wo = (if dis_twoSided d \<and> vec_z wo0 < 0 then vneg wo0 else wo0);
          wi = (if dis_twoSided d \<and> vec_z wo0 < 0 then vneg wi0 else wi0);
          wh = FaceForward (Normalize (vadd wi wo)) (Vector3f 0 0 1);
          cosWh = CosTheta wh
      in if \<not> SameHemisphere wo wi then
           (if dis_subsurface d > 0 then DisneySubsurfaceF d wo wi wh else sp_const 0)
         else
           (let Ctint = (if dis_Lum d > 0 then sp_div (dis_color d) (dis_Lum d) else sp_const 1);
                FH = SchlickFresnel (Dot wi wh);
                D = GTR2 cosWh (dis_roughness d);
                FD = FrDielectric env (Dot wo wh) (dis_eta d);
                F0 = (if dis_isSpecular d
                      then sp_Lerp FH (sp_scale (sp_const 1) (dis_specular d * (8 / 100))) (sp_const 1)
                      else sp_const FD);
                F = sp_Lerp (dis_metallic d) F0 (dis_color d);
                G = SmithGGXVN wo (dis_roughness d) * SmithGGXVN wi (dis_roughness d);
                Dc = GTR1 cosWh (Lerp (dis_clearcoatGloss d) (1 / 10) (1 / 1000));
                Fc = Lerp FH (4 / 100) 1;
                Gc = SmithGGXVN wo (1 / 4) * SmithGGXVN wi (1 / 4);
                J = 1 / (4 * AbsCosTheta wo * AbsCosTheta wi);
                spec = sp_scale (sp_scale (sp_scale F D) G) J;
                diffuse = DisneyDiffuseF d wo wi wh;
                coat = (Dc * Fc * Gc) * J;
                tintF = sp_Lerp (dis_sheenTint d) (sp_const 1) Ctint;
                sheenC = sp_scale tintF (FH * dis_sheen d)
            in sp_add (sp_add (sp_add diffuse sheenC) spec) (sp_const (dis_clearcoat d * coat))))"

definition DisneyBxDF_f ::
  "Collaborators \<Rightarrow> DisneyBxDF \<Rightarrow> Vector3f \<Rightarrow> Vector3f \<Rightarrow> TransportMode \<Rightarrow> SampledSpectrum" where
  "DisneyBxDF_f env d wo wi mode = BRDF_F env d wo wi"

text \<open>
  The three branch densities of \<^verbatim>\<open>BRDF_PDF\<close> (its locals \<^verbatim>\<open>pdfSpec\<close>, \<^verbatim>\<open>pdfDiff\<close> and
  \<^verbatim>\<open>pdfCc\<close>), for directions already brought to the upper side.
\<close>

definition BRDF_PDF_wh :: "Vector3f \<Rightarrow> Vector3f \<Rightarrow> Vector3f" where
  "BRDF_PDF_wh wo wi = FaceForward (Normalize (vadd wo wi)) (Vector3f 0 0 1)"

definition BRDF_pdfSpec :: "DisneyBxDF \<Rightarrow> Vector3f \<Rightarrow> Vector3f \<Rightarrow> Float" where
  "BRDF_pdfSpec d wo wi =
     (let wh = BRDF_PDF_wh wo wi;
          absCosWh = AbsCosTheta wh;
          G1 = SmithGGXVN wo (dis_roughness d);
          D = GTR2 absCosWh (dis_roughness d);
          J = 1 / (4 * AbsDot wo wh)
      in (G1 * AbsDot wo wh * D * J) / AbsCosTheta wo)"

definition BRDF_pdfDiff :: "Vector3f \<Rightarrow> Float" where
  "BRDF_pdfDiff wi = CosineHemispherePDF (AbsCosTheta wi)"

definition BRDF_pdfCc :: "DisneyBxDF \<Rightarrow> Vector3f \<Rightarrow> Vector3f \<Rightarrow> Float" where
  "BRDF_pdfCc d wo wi =
     (let wh = BRDF_PDF_wh wo wi;
          absCosWh = AbsCosTheta wh;
          J = 1 / (4 * AbsDot wo wh);
          Dc = GTR1 absCosWh (Lerp (dis_clearcoatGloss d) (1 / 10) (1 / 1000))
      in (Dc * absCosWh) * J)"

definition BRDF_PDF :: "DisneyBxDF \<Rightarrow> Vector3f \<Rightarrow> Vector3f \<Rightarrow> Float" where
  "BRDF_PDF d wo0 wi0 =
     (let wo = (if dis_twoSided d \<and> vec_z wo0 < 0 then vneg wo0 else wo0);
          wi = (if dis_twoSided d \<and> vec_z wo0 < 0 then vneg wi0 else wi0)
      in case ComputeWeights d of
           (sr, dr, cr) \<Rightarrow> BRDF_pdfSpec d wo wi * sr + BRDF_pdfDiff wi * dr + BRDF_pdfCc d wo wi * cr)"

definition DisneyBxDF_PDF ::
  "DisneyBxDF \<Rightarrow> Vector3f \<Rightarrow> Vector3f \<Rightarrow> TransportMode \<Rightarrow> BxDFReflTransFlags \<Rightarrow> Float" where
  "DisneyBxDF_PDF d wo wi mode sampleFlags = BRDF_PDF d wo wi"

text \<open>
  \<^verbatim>\<open>DisneyBxDF::Sample_f\<close> first chooses the direction and the flag of the branch that
  \<^verbatim>\<open>uc\<close> selects (\<open>None\<close> where the source returns the empty optional); it never reads
  \<^verbatim>\<open>sampleFlags\<close>. The generator is seeded from the flipped \<^verbatim>\<open>wo\<close>, \<^verbatim>\<open>uc\<close> and \<^verbatim>\<open>u\<close>, and
  the diffuse branch draws its first value.
\<close>

definition DisneyBxDF_sample_branch ::
  "Collaborators \<Rightarrow> DisneyBxDF \<Rightarrow> Vector3f \<Rightarrow> Float \<Rightarrow> Point2f \<Rightarrow> (Vector3f \<times> BxDFFlags) option" where
  "DisneyBxDF_sample_branch env d wo uc u =
     (case ComputeWeights d of
        (sr, dr, cr) \<Rightarrow>
          (let coatingTh = sr + cr;
               diffuseTh = sr + cr + dr
           in if uc \<le> sr then
                (let wm0 = DisneyBxDF_Sample_wm d wo u;
                     wm = (if CosTheta wo * CosTheta wm0 \<le> 0 then vneg wm0 else wm0);
                     wi = Reflect wo wm
                 in if \<not> SameHemisphere wo wi then None else Some (wi, GlossyReflection))
              else if uc > sr \<and> uc \<le> coatingTh then
                (let wi = SampleCoating d wo u
                 in if \<not> SameHemisphere wo wi then None else Some (wi, GlossyReflection))
              else if uc > coatingTh \<and> uc \<le> diffuseTh then
                (if draw env (RNG_sample env wo uc u) 0 \<le> dis_subsurface d then
                   (let wi0 = SampleCosineHemisphere env u;
                        wi = (if vec_z wo > 0 then flip_z wi0 else wi0)
                    in Some (wi, DiffuseTransmission))
                 else
                   (let wi0 = SampleCosineHemisphere env u;
                        wi = (if vec_z wo < 0 then flip_z wi0 else wi0)
                    in Some (wi, DiffuseReflection)))
              else None))"

definition DisneyBxDF_Sample_f ::
  "Collaborators \<Rightarrow> DisneyBxDF \<Rightarrow> Vector3f \<Rightarrow> Float \<Rightarrow> Point2f \<Rightarrow> TransportMode \<Rightarrow>
   BxDFReflTransFlags \<Rightarrow> BSDFSample option" where
  "DisneyBxDF_Sample_f env d wo0 uc u mode sampleFlags =
     (let flip = (dis_twoSided d \<and> vec_z wo0 < 0);
          wo = (if flip then vneg wo0 else wo0)
      in case DisneyBxDF_sample_branch env d wo uc u of
           None \<Rightarrow> None
         | Some (wi, flag) \<Rightarrow>
             (let pdf = BRDF_PDF d wo wi;
                  fd = BRDF_F env d wo wi
              in Some (mk_BSDFSample fd (if flip then vneg wi else wi) pdf flag)))"

definition DisneyBxDF_Flags :: "DisneyBxDF \<Rightarrow> BxDFFlags" where
  "DisneyBxDF_Flags d =
     ({Reflection} \<union> {Specular} \<union> GlossyReflection) \<union> (DiffuseReflection \<union> DiffuseTransmission)"

section \<open>LayeredBxDF\<close>

text \<open>
  The template parameters \<^verbatim>\<open>TopBxDF\<close> and \<^verbatim>\<open>BottomBxDF\<close> are any two lobes: a lobe is
  the record of the operations the layered code calls on it. \<^verbatim>\<open>TopOrBottomBxDF\<close> only
  forwards each call to the lobe it points to, so an interface variable of the source is
  the lobe itself. \<^verbatim>\<open>CHECK\<close> aborts the program when its condition is false: the two
  operations that start with one return \<open>Inl CheckFailed\<close> there. The estimates of
  \<^verbatim>\<open>f\<close> and \<^verbatim>\<open>PDF\<close> end with a division by \<^verbatim>\<open>nSamples\<close>, which the constructor takes
  as any \<^verbatim>\<open>int\<close>: with \<^verbatim>\<open>nSamples\<close> zero no trial runs, the sum is \<open>0 * x = 0\<close>, and the
  \<^verbatim>\<open>Float\<close> quotient \<open>0 / 0\<close> is NaN, which no real number stands for: the result is
  \<open>Inl NotANumber\<close> there.
\<close>

record Lobe =
  lobe_f :: "Vector3f \<Rightarrow> Vector3f \<Rightarrow> TransportMode \<Rightarrow> SampledSpectrum"
  lobe_Sample_f ::
    "Vector3f \<Rightarrow> Float \<Rightarrow> Point2f \<Rightarrow> TransportMode \<Rightarrow> BxDFReflTransFlags \<Rightarrow> BSDFSample option"
  lobe_PDF :: "Vector3f \<Rightarrow> Vector3f \<Rightarrow> TransportMode \<Rightarrow> BxDFReflTransFlags \<Rightarrow> Float"
  lobe_Flags :: BxDFFlags

datatype error = CheckFailed | NotANumber

record LayeredBxDF =
  lay_top :: Lobe
  lay_bottom :: Lobe
  lay_thickness :: Float
  lay_g :: Float
  lay_albedo :: SampledSpectrum
  lay_maxDepth :: int
  lay_nSamples :: int
  lay_twoSided :: bool

definition mk_LayeredBxDF ::
  "Collaborators \<Rightarrow> bool \<Rightarrow> Lobe \<Rightarrow> Lobe \<Rightarrow> Float \<Rightarrow> SampledSpectrum \<Rightarrow> Float \<Rightarrow> int \<Rightarrow> int \<Rightarrow>
   LayeredBxDF" where
  "mk_LayeredBxDF env twoSided top_lobe bottom_lobe thickness albedo g maxDepth nSamples =
     \<lparr>lay_top = top_lobe, lay_bottom = bottom_lobe, lay_thickness = max thickness (Float_min env),
      lay_g = g, lay_albedo = albedo, lay_maxDepth = maxDepth, lay_nSamples = nSamples,
      lay_twoSided = twoSided\<rparr>"

definition Tr :: "Collaborators \<Rightarrow> Float \<Rightarrow> Vector3f \<Rightarrow> Float" where
  "Tr env dz w = (if \<bar>dz\<bar> \<le> Float_min env then 1 else FastExp env (- \<bar>dz / vec_z w\<bar>))"

text \<open>
  The test \<^verbatim>\<open>!bs || !bs->f || bs->pdf == 0 || bs->wi.z == 0\<close> on a sample that is
  present.
\<close>

definition sample_unusable :: "BSDFSample \<Rightarrow> bool" where
  "sample_unusable bs =
     (if sp_bool (bs_f bs) then bs_pdf bs = 0 \<or> vec_z (bs_wi bs) = 0 else True)"

definition LayeredBxDF_Flags :: "LayeredBxDF \<Rightarrow> error + BxDFFlags" where
  "LayeredBxDF_Flags L =
     (let topFlags = lobe_Flags (lay_top L);
          bottomFlags = lobe_Flags (lay_bottom L)
      in if IsTransmissive topFlags \<or> IsTransmissive bottomFlags then
           Inr ({Reflection}
                \<union> (if IsSpecular topFlags then {Specular} else {})
                \<union> (if IsDiffuse topFlags \<or> IsDiffuse bottomFlags \<or> sp_bool (lay_albedo L)
                   then {Diffuse}
                   else if IsGlossy topFlags \<or> IsGlossy bottomFlags then {Glossy} else {})
                \<union> (if IsTransmissive topFlags \<and> IsTransmissive bottomFlags
                   then {Transmission} else {}))
         else Inl CheckFailed)"

subsection \<open>LayeredBxDF::PDF\<close>

text \<open>
  One trial of the loop over \<^verbatim>\<open>nSamples\<close>, on the pair of \<^verbatim>\<open>pdfSum\<close> and the position
  in the random stream. The arguments of one call are evaluated from left to right.
\<close>

definition LayeredBxDF_PDF_TRT ::
  "Collaborators \<Rightarrow> LayeredBxDF \<Rightarrow> (nat \<Rightarrow> Float) \<Rightarrow> Vector3f \<Rightarrow> Vector3f \<Rightarrow> TransportMode \<Rightarrow> bool \<Rightarrow>
   Float \<times> nat \<Rightarrow> Float \<times> nat" where
  "LayeredBxDF_PDF_TRT env L rng wo wi mode enteredTop st =
     (case st of
        (pdfSum, n) \<Rightarrow>
          (let rInterface = (if enteredTop then lay_bottom L else lay_top L);
               tInterface = (if enteredTop then lay_top L else lay_bottom L);
               wos0 = lobe_Sample_f tInterface wo (draw env rng n)
                       (Point2f (draw env rng (n + 1)) (draw env rng (n + 2))) mode RT_Transmission;
               wis0 = lobe_Sample_f tInterface wi (draw env rng (n + 3))
                       (Point2f (draw env rng (n + 4)) (draw env rng (n + 5))) (flip_mode mode)
                       RT_Transmission
           in case wos0 of
                None \<Rightarrow> (pdfSum, n + 6)
              | Some wos \<Rightarrow>
                  (case wis0 of
                     None \<Rightarrow> (pdfSum, n + 6)
                   | Some wis \<Rightarrow>
                       if sp_bool (bs_f wos) \<and> bs_pdf wos > 0 \<and> sp_bool (bs_f wis) \<and> bs_pdf wis > 0 then
                         (if \<not> IsNonSpecular (lobe_Flags tInterface) then
                            (pdfSum + lobe_PDF rInterface (vneg (bs_wi wos)) (vneg (bs_wi wis)) mode
                                        RT_All,
                             n + 6)
                          else
                            (case lobe_Sample_f rInterface (vneg (bs_wi wos)) (draw env rng (n + 6))
                                    (Point2f (draw env rng (n + 7)) (draw env rng (n + 8))) mode RT_All of
                               None \<Rightarrow> (pdfSum, n + 9)
                             | Some rs \<Rightarrow>
                                 if sp_bool (bs_f rs) \<and> bs_pdf rs > 0 then
                                   (if \<not> IsNonSpecular (lobe_Flags rInterface) then
                                      (pdfSum + lobe_PDF tInterface (vneg (bs_wi rs)) wi mode RT_All,
                                       n + 9)
                                    else
                                      (let rPDF = lobe_PDF rInterface (vneg (bs_wi wos))
                                                    (vneg (bs_wi wis)) mode RT_All;
                                           wt = PowerHeuristic env 1 (bs_pdf wis) 1 rPDF;
                                           pdfSum1 = pdfSum + wt * rPDF;
                                           tPDF = lobe_PDF tInterface (vneg (bs_wi rs)) wi mode RT_All;
                                           wt2 = PowerHeuristic env 1 (bs_pdf rs) 1 tPDF
                                       in (pdfSum1 + wt2 * tPDF, n + 9)))
                                 else (pdfSum, n + 9)))
                       else (pdfSum, n + 6))))"

definition LayeredBxDF_PDF_TT ::
  "Collaborators \<Rightarrow> LayeredBxDF \<Rightarrow> (nat \<Rightarrow> Float) \<Rightarrow> Vector3f \<Rightarrow> Vector3f \<Rightarrow> TransportMode \<Rightarrow> bool \<Rightarrow>
   Float \<times> nat \<Rightarrow> Float \<times> nat" where
  "LayeredBxDF_PDF_TT env L rng wo wi mode enteredTop st =
     (case st of
        (pdfSum, n) \<Rightarrow>
          (let toInterface = (if enteredTop then lay_top L else lay_bottom L);
               tiInterface = (if enteredTop then lay_bottom L else lay_top L);
               uc = draw env rng n;
               u = Point2f (draw env rng (n + 1)) (draw env rng (n + 2))
           in case lobe_Sample_f toInterface wo uc u mode RT_All of
                None \<Rightarrow> (pdfSum, n + 3)
              | Some wos \<Rightarrow>
                  if sample_unusable wos \<or> bs_IsReflection wos then (pdfSum, n + 3)
                  else
                    (let uc2 = draw env rng (n + 3);
                         u2 = Point2f (draw env rng (n + 4)) (draw env rng (n + 5))
                     in case lobe_Sample_f tiInterface wi uc2 u2 (flip_mode mode) RT_All of
                          None \<Rightarrow> (pdfSum, n + 6)
                        | Some wis \<Rightarrow>
                            if sample_unusable wis \<or> bs_IsReflection wis then (pdfSum, n + 6)
                            else if IsSpecular (lobe_Flags toInterface) then
                              (pdfSum + lobe_PDF tiInterface (vneg (bs_wi wos)) wi mode RT_All, n + 6)
                            else if IsSpecular (lobe_Flags tiInterface) then
                              (pdfSum + lobe_PDF toInterface wo (vneg (bs_wi wis)) mode RT_All, n + 6)
                            else
                              (pdfSum + (lobe_PDF toInterface wo (vneg (bs_wi wis)) mode RT_All
                                         + lobe_PDF tiInterface (vneg (bs_wi wos)) wi mode RT_All) / 2,
                               n + 6))))"

definition LayeredBxDF_PDF_trial ::
  "Collaborators \<Rightarrow> LayeredBxDF \<Rightarrow> (nat \<Rightarrow> Float) \<Rightarrow> Vector3f \<Rightarrow> Vector3f \<Rightarrow> TransportMode \<Rightarrow> bool \<Rightarrow>
   Float \<times> nat \<Rightarrow> Float \<times> nat" where
  "LayeredBxDF_PDF_trial env L rng wo wi mode enteredTop st =
     (if SameHemisphere wo wi then LayeredBxDF_PDF_TRT env L rng wo wi mode enteredTop st
      else LayeredBxDF_PDF_TT env L rng wo wi mode enteredTop st)"

text \<open>The loop \<^verbatim>\<open>for (int s = 0; s < nSamples; ++s)\<close>, by the number of trials left.\<close>

fun LayeredBxDF_PDF_loop ::
  "Collaborators \<Rightarrow> LayeredBxDF \<Rightarrow> (nat \<Rightarrow> Float) \<Rightarrow> Vector3f \<Rightarrow> Vector3f \<Rightarrow> TransportMode \<Rightarrow> bool \<Rightarrow>
   nat \<Rightarrow> Float \<times> nat \<Rightarrow> Float \<times> nat" where
  "LayeredBxDF_PDF_loop env L rng wo wi mode enteredTop 0 st = st"
| "LayeredBxDF_PDF_loop env L rng wo wi mode enteredTop (Suc k) st =
     LayeredBxDF_PDF_loop env L rng wo wi mode enteredTop k
       (LayeredBxDF_PDF_trial env L rng wo wi mode enteredTop st)"

text \<open>\<^verbatim>\<open>pdfSum\<close> as it stands when the loop is over.\<close>

definition LayeredBxDF_pdfSum ::
  "Collaborators \<Rightarrow> LayeredBxDF \<Rightarrow> Vector3f \<Rightarrow> Vector3f \<Rightarrow> TransportMode \<Rightarrow> Float" where
  "LayeredBxDF_pdfSum env L wo0 wi0 mode =
     (let wo = (if lay_twoSided L \<and> vec_z wo0 < 0 then vneg wo0 else wo0);
          wi = (if lay_twoSided L \<and> vec_z wo0 < 0 then vneg wi0 else wi0);
          rng = RNG_dirs env wi wo;
          enteredTop = (lay_twoSided L \<or> vec_z wo > 0);
          pdfSum0 = (if SameHemisphere wo wi
                     then (if enteredTop
                           then real_of_int (lay_nSamples L) * lobe_PDF (lay_top L) wo wi mode RT_Reflection
                           else real_of_int (lay_nSamples L)
                                * lobe_PDF (lay_bottom L) wo wi mode RT_Reflection)
                     else 0)
      in fst (LayeredBxDF_PDF_loop env L rng wo wi mode enteredTop (nat (lay_nSamples L))
                (pdfSum0, 0)))"

text \<open>
  The body of \<^verbatim>\<open>PDF\<close> after its \<^verbatim>\<open>CHECK\<close>; it does not read \<^verbatim>\<open>sampleFlags\<close>. The last
  line is \<^verbatim>\<open>Lerp(0.9f, 1 / (4 * Pi), pdfSum / nSamples)\<close>, and a NaN quotient gives a NaN
  result.
\<close>

definition LayeredBxDF_PDF_body ::
  "Collaborators \<Rightarrow> LayeredBxDF \<Rightarrow> Vector3f \<Rightarrow> Vector3f \<Rightarrow> TransportMode \<Rightarrow> error + Float" where
  "LayeredBxDF_PDF_body env L wo wi mode =
     (if lay_nSamples L = 0 then Inl NotANumber
      else Inr (Lerp (9 / 10) (1 / (4 * pi))
                  (LayeredBxDF_pdfSum env L wo wi mode / real_of_int (lay_nSamples L))))"

definition LayeredBxDF_PDF ::
  "Collaborators \<Rightarrow> LayeredBxDF \<Rightarrow> Vector3f \<Rightarrow> Vector3f \<Rightarrow> TransportMode \<Rightarrow> BxDFReflTransFlags \<Rightarrow>
   error + Float" where
  "LayeredBxDF_PDF env L wo wi mode sampleFlags =
     (if sampleFlags = RT_All then LayeredBxDF_PDF_body env L wo wi mode
      else Inl CheckFailed)"

subsection \<open>LayeredBxDF::Sample_f\<close>

text \<open>
  The state of the walk of \<^verbatim>\<open>Sample_f\<close>: the locals \<^verbatim>\<open>f\<close>, \<^verbatim>\<open>pdf\<close>, \<^verbatim>\<open>z\<close>, \<^verbatim>\<open>w\<close> and
  \<^verbatim>\<open>specularPath\<close>, and the position in the random stream. One pass of the loop body
  either leaves the function (\<open>Exit\<close>), goes to the next pass (\<open>Continue\<close>), or goes on
  to the next part of the body (\<open>Proceed\<close>).
\<close>

record s_state =
  ss_f :: SampledSpectrum
  ss_pdf :: Float
  ss_z :: Float
  ss_w :: Vector3f
  ss_specularPath :: bool
  ss_n :: nat

datatype ('r, 'a) flow = Exit 'r | Continue 'a | Proceed 'a

text \<open>
  Russian roulette in \<^verbatim>\<open>Sample_f\<close>: \<open>None\<close> is the \<^verbatim>\<open>return {}\<close> of a terminated walk.
\<close>

definition LayeredBxDF_Sample_f_roulette ::
  "Collaborators \<Rightarrow> (nat \<Rightarrow> Float) \<Rightarrow> int \<Rightarrow> s_state \<Rightarrow> s_state option" where
  "LayeredBxDF_Sample_f_roulette env rng depth st =
     (let rrBeta = MaxComponentValue (ss_f st) / ss_pdf st
      in if depth > 3 \<and> rrBeta < 1 / 4 then
           (let q = max 0 (1 - rrBeta)
            in if draw env rng (ss_n st) < q then None
               else Some (st\<lparr>ss_pdf := ss_pdf st * (1 - q), ss_n := ss_n st + 1\<rparr>))
         else Some st)"

definition LayeredBxDF_Sample_f_medium ::
  "Collaborators \<Rightarrow> LayeredBxDF \<Rightarrow> (nat \<Rightarrow> Float) \<Rightarrow> s_state \<Rightarrow> (BSDFSample option, s_state) flow" where
  "LayeredBxDF_Sample_f_medium env L rng st =
     (let n = ss_n st; w = ss_w st; z = ss_z st
      in if sp_bool (lay_albedo L) then
           (let sigma_t = 1;
                dz = SampleExponential env (draw env rng n) (sigma_t / AbsCosTheta w);
                zp = (if vec_z w > 0 then z + dz else z - dz)
            in if zp = z then Exit None
               else if 0 < zp \<and> zp < lay_thickness L then
                 (case HG_Sample_p env (lay_g L) (vneg w)
                         (Point2f (draw env rng (n + 1)) (draw env rng (n + 2))) of
                    None \<Rightarrow> Exit None
                  | Some ps \<Rightarrow>
                      if ps_pdf ps = 0 \<or> vec_z (ps_wi ps) = 0 then Exit None
                      else Continue
                             \<lparr>ss_f = sp_mul (ss_f st) (sp_scale (lay_albedo L) (ps_p ps)),
                              ss_pdf = ss_pdf st * ps_pdf ps,
                              ss_z = zp,
                              ss_w = ps_wi ps,
                              ss_specularPath = False,
                              ss_n = n + 3\<rparr>)
               else Proceed (st\<lparr>ss_z := Clamp zp 0 (lay_thickness L), ss_n := n + 1\<rparr>))
         else
           Proceed (st\<lparr>ss_z := (if z = lay_thickness L then 0 else lay_thickness L),
                       ss_f := sp_scale (ss_f st) (Tr env (lay_thickness L) w)\<rparr>))"

definition LayeredBxDF_Sample_f_interface ::
  "Collaborators \<Rightarrow> LayeredBxDF \<Rightarrow> (nat \<Rightarrow> Float) \<Rightarrow> Vector3f \<Rightarrow> TransportMode \<Rightarrow> bool \<Rightarrow> s_state \<Rightarrow>
   (BSDFSample option, s_state) flow" where
  "LayeredBxDF_Sample_f_interface env L rng wo mode flipWi st =
     (let n = ss_n st;
          interface = (if ss_z st = 0 then lay_bottom L else lay_top L);
          uc = draw env rng n;
          u = Point2f (draw env rng (n + 1)) (draw env rng (n + 2))
      in case lobe_Sample_f interface (vneg (ss_w st)) uc u mode RT_All of
           None \<Rightarrow> Exit None
         | Some bs \<Rightarrow>
             if sample_unusable bs then Exit None
             else
               (let f1 = sp_mul (ss_f st) (bs_f bs);
                    pdf1 = ss_pdf st * bs_pdf bs;
                    specularPath = (ss_specularPath st \<and> bs_IsSpecular bs);
                    w = bs_wi bs
                in if bs_IsTransmission bs then
                     (let flags = (if SameHemisphere wo w then {Reflection} else {Transmission})
                                  \<union> (if specularPath then {Specular} else {Glossy})
                      in Exit (Some \<lparr>bs_f = f1, bs_wi = (if flipWi then vneg w else w),
                                      bs_pdf = pdf1, bs_flags = flags, bs_eta = 1,
                                      bs_pdfIsProportional = True\<rparr>))
                   else Continue
                          \<lparr>ss_f = sp_scale f1 (AbsCosTheta (bs_wi bs)),
                           ss_pdf = pdf1,
                           ss_z = ss_z st,
                           ss_w = w,
                           ss_specularPath = specularPath,
                           ss_n = n + 3\<rparr>))"

text \<open>The loop body after the roulette, on the state the roulette leaves.\<close>

definition LayeredBxDF_Sample_f_after_roulette ::
  "Collaborators \<Rightarrow> LayeredBxDF \<Rightarrow> (nat \<Rightarrow> Float) \<Rightarrow> Vector3f \<Rightarrow> TransportMode \<Rightarrow> bool \<Rightarrow>
   s_state \<Rightarrow> (BSDFSample option, s_state) flow" where
  "LayeredBxDF_Sample_f_after_roulette env L rng wo mode flipWi st1 =
     (if vec_z (ss_w st1) = 0 then Exit None
      else
        (case LayeredBxDF_Sample_f_medium env L rng st1 of
           Exit r \<Rightarrow> Exit r
         | Continue st2 \<Rightarrow> Continue st2
         | Proceed st2 \<Rightarrow> LayeredBxDF_Sample_f_interface env L rng wo mode flipWi st2))"

definition LayeredBxDF_Sample_f_step ::
  "Collaborators \<Rightarrow> LayeredBxDF \<Rightarrow> (nat \<Rightarrow> Float) \<Rightarrow> Vector3f \<Rightarrow> TransportMode \<Rightarrow> bool \<Rightarrow> int \<Rightarrow>
   s_state \<Rightarrow> (BSDFSample option, s_state) flow" where
  "LayeredBxDF_Sample_f_step env L rng wo mode flipWi depth st =
     (case LayeredBxDF_Sample_f_roulette env rng depth st of
        None \<Rightarrow> Exit None
      | Some st1 \<Rightarrow> LayeredBxDF_Sample_f_after_roulette env L rng wo mode flipWi st1)"

text \<open>
  The loop \<^verbatim>\<open>for (int depth = 0; depth < maxDepth; ++depth)\<close>, by the number of passes
  left; when none is left the function returns the empty optional.
\<close>

fun LayeredBxDF_Sample_f_walk ::
  "Collaborators \<Rightarrow> LayeredBxDF \<Rightarrow> (nat \<Rightarrow> Float) \<Rightarrow> Vector3f \<Rightarrow> TransportMode \<Rightarrow> bool \<Rightarrow> nat \<Rightarrow> int \<Rightarrow>
   s_state \<Rightarrow> BSDFSample option" where
  "LayeredBxDF_Sample_f_walk env L rng wo mode flipWi 0 depth st = None"
| "LayeredBxDF_Sample_f_walk env L rng wo mode flipWi (Suc k) depth st =
     (case LayeredBxDF_Sample_f_step env L rng wo mode flipWi depth st of
        Exit r \<Rightarrow> r
      | Continue st1 \<Rightarrow> LayeredBxDF_Sample_f_walk env L rng wo mode flipWi k (depth + 1) st1
      | Proceed st1 \<Rightarrow> LayeredBxDF_Sample_f_walk env L rng wo mode flipWi k (depth + 1) st1)"

text \<open>The body of \<^verbatim>\<open>Sample_f\<close> after its \<^verbatim>\<open>CHECK\<close>; it does not read \<^verbatim>\<open>sampleFlags\<close>.\<close>

definition LayeredBxDF_Sample_f_body ::
  "Collaborators \<Rightarrow> LayeredBxDF \<Rightarrow> Vector3f \<Rightarrow> Float \<Rightarrow> Point2f \<Rightarrow> TransportMode \<Rightarrow> BSDFSample option" where
  "LayeredBxDF_Sample_f_body env L wo0 uc u mode =
     (let flipWi = (lay_twoSided L \<and> vec_z wo0 < 0);
          wo = (if flipWi then vneg wo0 else wo0);
          enteredTop = (lay_twoSided L \<or> vec_z wo > 0)
      in case (if enteredTop then lobe_Sample_f (lay_top L) wo uc u mode RT_All
               else lobe_Sample_f (lay_bottom L) wo uc u mode RT_All) of
           None \<Rightarrow> None
         | Some bs \<Rightarrow>
             if sample_unusable bs then None
             else if bs_IsReflection bs then
               Some (bs\<lparr>bs_wi := (if flipWi then vneg (bs_wi bs) else bs_wi bs),
                        bs_pdfIsProportional := True\<rparr>)
             else
               LayeredBxDF_Sample_f_walk env L (RNG_sample env wo uc u) wo mode flipWi
                 (nat (lay_maxDepth L)) 0
                 \<lparr>ss_f = sp_scale (bs_f bs) (AbsCosTheta (bs_wi bs)),
                  ss_pdf = bs_pdf bs,
                  ss_z = (if enteredTop then lay_thickness L else 0),
                  ss_w = bs_wi bs,
                  ss_specularPath = bs_IsSpecular bs,
                  ss_n = 0\<rparr>)"

definition LayeredBxDF_Sample_f ::
  "Collaborators \<Rightarrow> LayeredBxDF \<Rightarrow> Vector3f \<Rightarrow> Float \<Rightarrow> Point2f \<Rightarrow> TransportMode \<Rightarrow>
   BxDFReflTransFlags \<Rightarrow> error + BSDFSample option" where
  "LayeredBxDF_Sample_f env L wo uc u mode sampleFlags =
     (if sampleFlags = RT_All then Inr (LayeredBxDF_Sample_f_body env L wo uc u mode)
      else Inl CheckFailed)"

subsection \<open>LayeredBxDF::f\<close>

text \<open>
  The state of one walk of \<^verbatim>\<open>f\<close>: the estimate \<^verbatim>\<open>f\<close> accumulated so far, the
  throughput \<^verbatim>\<open>beta\<close>, the depth \<^verbatim>\<open>z\<close>, the direction \<^verbatim>\<open>w\<close> and the position in the
  random stream. \<open>Exit\<close> is the \<^verbatim>\<open>break\<close> of the inner loop: the estimate and the
  stream go on to the next trial.
\<close>

record f_state =
  fs_f :: SampledSpectrum
  fs_beta :: SampledSpectrum
  fs_z :: Float
  fs_w :: Vector3f
  fs_n :: nat

text \<open>Russian roulette in \<^verbatim>\<open>f\<close>: \<open>None\<close> is the \<^verbatim>\<open>break\<close> of a terminated walk.\<close>

definition LayeredBxDF_f_roulette ::
  "Collaborators \<Rightarrow> (nat \<Rightarrow> Float) \<Rightarrow> int \<Rightarrow> f_state \<Rightarrow> f_state option" where
  "LayeredBxDF_f_roulette env rng depth st =
     (if depth > 3 \<and> MaxComponentValue (fs_beta st) < 1 / 4 then
        (let q = max 0 (1 - MaxComponentValue (fs_beta st))
         in if draw env rng (fs_n st) < q then None
            else Some (st\<lparr>fs_beta := sp_div (fs_beta st) (1 - q), fs_n := fs_n st + 1\<rparr>))
      else Some st)"

definition LayeredBxDF_f_medium ::
  "Collaborators \<Rightarrow> LayeredBxDF \<Rightarrow> (nat \<Rightarrow> Float) \<Rightarrow> Vector3f \<Rightarrow> TransportMode \<Rightarrow> Lobe \<Rightarrow> Float \<Rightarrow>
   BSDFSample \<Rightarrow> f_state \<Rightarrow> (f_state, f_state) flow" where
  "LayeredBxDF_f_medium env L rng wi mode exitInterface exitZ wis st =
     (let n = fs_n st; w = fs_w st; z = fs_z st; beta = fs_beta st; albedo = lay_albedo L
      in if \<not> sp_bool albedo then
           Proceed (st\<lparr>fs_z := (if z = lay_thickness L then 0 else lay_thickness L),
                       fs_beta := sp_scale beta (Tr env (lay_thickness L) w)\<rparr>)
         else
           (let sigma_t = 1;
                dz = SampleExponential env (draw env rng n) (sigma_t / \<bar>vec_z w\<bar>);
                zp = (if vec_z w > 0 then z + dz else z - dz)
            in if z = zp then Continue (st\<lparr>fs_n := n + 1\<rparr>)
               else if 0 < zp \<and> zp < lay_thickness L then
                 (let wt = (if \<not> IsSpecular (lobe_Flags exitInterface)
                            then PowerHeuristic env 1 (bs_pdf wis) 1
                                   (HG_PDF env (lay_g L) (vneg w) (vneg (bs_wi wis)))
                            else 1);
                      f1 = sp_add (fs_f st)
                             (sp_div
                                (sp_mul
                                   (sp_scale
                                      (sp_scale
                                         (sp_scale (sp_mul beta albedo)
                                            (HG_p env (lay_g L) (vneg w) (vneg (bs_wi wis))))
                                         wt)
                                      (Tr env (zp - exitZ) (bs_wi wis)))
                                   (bs_f wis))
                                (bs_pdf wis));
                      u = Point2f (draw env rng (n + 1)) (draw env rng (n + 2))
                  in case HG_Sample_p env (lay_g L) (vneg w) u of
                       None \<Rightarrow> Continue (st\<lparr>fs_f := f1, fs_n := n + 3\<rparr>)
                     | Some ps \<Rightarrow>
                         if ps_pdf ps = 0 \<or> vec_z (ps_wi ps) = 0
                         then Continue (st\<lparr>fs_f := f1, fs_n := n + 3\<rparr>)
                         else
                           (let beta1 = sp_mul beta (sp_div (sp_scale albedo (ps_p ps)) (ps_pdf ps));
                                w1 = ps_wi ps;
                                z1 = zp;
                                f2 = (if ((z1 < exitZ \<and> vec_z w1 > 0) \<or> (z1 > exitZ \<and> vec_z w1 < 0))
                                         \<and> \<not> IsSpecular (lobe_Flags exitInterface)
                                      then
                                        (let fExit = lobe_f exitInterface (vneg w1) wi mode
                                         in if sp_bool fExit then
                                              (let exitPDF = lobe_PDF exitInterface (vneg w1) wi mode
                                                               RT_Transmission;
                                                   wt2 = PowerHeuristic env 1 (ps_pdf ps) 1 exitPDF
                                               in sp_add f1
                                                    (sp_scale
                                                       (sp_mul
                                                          (sp_scale beta1 (Tr env (zp - exitZ) (ps_wi ps)))
                                                          fExit)
                                                       wt2))
                                            else f1)
                                      else f1)
                            in Continue \<lparr>fs_f = f2, fs_beta = beta1, fs_z = z1, fs_w = w1,
                                         fs_n = n + 3\<rparr>))
               else Proceed (st\<lparr>fs_z := Clamp zp 0 (lay_thickness L), fs_n := n + 1\<rparr>)))"

definition LayeredBxDF_f_interface ::
  "Collaborators \<Rightarrow> LayeredBxDF \<Rightarrow> (nat \<Rightarrow> Float) \<Rightarrow> Vector3f \<Rightarrow> TransportMode \<Rightarrow> Lobe \<Rightarrow> Lobe \<Rightarrow>
   Float \<Rightarrow> BSDFSample \<Rightarrow> f_state \<Rightarrow> (f_state, f_state) flow" where
  "LayeredBxDF_f_interface env L rng wi mode exitInterface nonExitInterface exitZ wis st =
     (let n = fs_n st; w = fs_w st; beta = fs_beta st;
          uc = draw env rng n;
          u = Point2f (draw env rng (n + 1)) (draw env rng (n + 2))
      in if fs_z st = exitZ then
           (case lobe_Sample_f exitInterface (vneg w) uc u mode RT_Reflection of
              None \<Rightarrow> Exit (st\<lparr>fs_n := n + 3\<rparr>)
            | Some bs \<Rightarrow>
                if sample_unusable bs then Exit (st\<lparr>fs_n := n + 3\<rparr>)
                else Continue
                       (st\<lparr>fs_beta := sp_mul beta
                                         (sp_div (sp_scale (bs_f bs) (AbsCosTheta (bs_wi bs)))
                                            (bs_pdf bs)),
                           fs_w := bs_wi bs,
                           fs_n := n + 3\<rparr>))
         else
           (let f1 = (if \<not> IsSpecular (lobe_Flags nonExitInterface) then
                        (let wt = (if \<not> IsSpecular (lobe_Flags exitInterface)
                                   then PowerHeuristic env 1 (bs_pdf wis) 1
                                          (lobe_PDF nonExitInterface (vneg w) (vneg (bs_wi wis)) mode
                                             RT_All)
                                   else 1)
                         in sp_add (fs_f st)
                              (sp_div
                                 (sp_mul
                                    (sp_scale
                                       (sp_scale
                                          (sp_scale
                                             (sp_mul beta
                                                (lobe_f nonExitInterface (vneg w) (vneg (bs_wi wis)) mode))
                                             (AbsCosTheta (bs_wi wis)))
                                          wt)
                                       (Tr env (lay_thickness L) (bs_wi wis)))
                                    (bs_f wis))
                                 (bs_pdf wis)))
                      else fs_f st)
            in case lobe_Sample_f nonExitInterface (vneg w) uc u mode RT_Reflection of
                 None \<Rightarrow> Exit (st\<lparr>fs_f := f1, fs_n := n + 3\<rparr>)
               | Some bs \<Rightarrow>
                   if sample_unusable bs then Exit (st\<lparr>fs_f := f1, fs_n := n + 3\<rparr>)
                   else
                     (let beta1 = sp_mul beta
                                    (sp_div (sp_scale (bs_f bs) (AbsCosTheta (bs_wi bs))) (bs_pdf bs));
                          w1 = bs_wi bs;
                          f2 = (if \<not> IsSpecular (lobe_Flags exitInterface) then
                                  (let fExit = lobe_f exitInterface (vneg w1) wi mode
                                   in if sp_bool fExit then
                                        (let wt2 = (if \<not> IsSpecular (lobe_Flags nonExitInterface)
                                                    then PowerHeuristic env 1 (bs_pdf bs) 1
                                                           (lobe_PDF exitInterface (vneg w1) wi mode
                                                              RT_Transmission)
                                                    else 1)
                                         in sp_add f1
                                              (sp_scale
                                                 (sp_mul
                                                    (sp_scale beta1 (Tr env (lay_thickness L) (bs_wi bs)))
                                                    fExit)
                                                 wt2))
                                      else f1)
                                else f1)
                      in Continue (st\<lparr>fs_f := f2, fs_beta := beta1, fs_w := w1, fs_n := n + 3\<rparr>))))"

text \<open>The loop body after the roulette, on the state the roulette leaves.\<close>

definition LayeredBxDF_f_after_roulette ::
  "Collaborators \<Rightarrow> LayeredBxDF \<Rightarrow> (nat \<Rightarrow> Float) \<Rightarrow> Vector3f \<Rightarrow> TransportMode \<Rightarrow> Lobe \<Rightarrow> Lobe \<Rightarrow>
   Float \<Rightarrow> BSDFSample \<Rightarrow> f_state \<Rightarrow> (f_state, f_state) flow" where
  "LayeredBxDF_f_after_roulette env L rng wi mode exitInterface nonExitInterface exitZ wis st1 =
     (case LayeredBxDF_f_medium env L rng wi mode exitInterface exitZ wis st1 of
        Exit st2 \<Rightarrow> Exit st2
      | Continue st2 \<Rightarrow> Continue st2
      | Proceed st2 \<Rightarrow>
          LayeredBxDF_f_interface env L rng wi mode exitInterface nonExitInterface exitZ wis st2)"

definition LayeredBxDF_f_step ::
  "Collaborators \<Rightarrow> LayeredBxDF \<Rightarrow> (nat \<Rightarrow> Float) \<Rightarrow> Vector3f \<Rightarrow> TransportMode \<Rightarrow> Lobe \<Rightarrow> Lobe \<Rightarrow>
   Float \<Rightarrow> BSDFSample \<Rightarrow> int \<Rightarrow> f_state \<Rightarrow> (f_state, f_state) flow" where
  "LayeredBxDF_f_step env L rng wi mode exitInterface nonExitInterface exitZ wis depth st =
     (case LayeredBxDF_f_roulette env rng depth st of
        None \<Rightarrow> Exit (st\<lparr>fs_n := fs_n st + 1\<rparr>)
      | Some st1 \<Rightarrow>
          LayeredBxDF_f_after_roulette env L rng wi mode exitInterface nonExitInterface exitZ wis
            st1)"

fun LayeredBxDF_f_walk ::
  "Collaborators \<Rightarrow> LayeredBxDF \<Rightarrow> (nat \<Rightarrow> Float) \<Rightarrow> Vector3f \<Rightarrow> TransportMode \<Rightarrow> Lobe \<Rightarrow> Lobe \<Rightarrow>
   Float \<Rightarrow> BSDFSample \<Rightarrow> nat \<Rightarrow> int \<Rightarrow> f_state \<Rightarrow> f_state" where
  "LayeredBxDF_f_walk env L rng wi mode exitInterface nonExitInterface exitZ wis 0 depth st = st"
| "LayeredBxDF_f_walk env L rng wi mode exitInterface nonExitInterface exitZ wis (Suc k) depth st =
     (case LayeredBxDF_f_step env L rng wi mode exitInterface nonExitInterface exitZ wis depth st of
        Exit st1 \<Rightarrow> st1
      | Continue st1 \<Rightarrow>
          LayeredBxDF_f_walk env L rng wi mode exitInterface nonExitInterface exitZ wis k (depth + 1) st1
      | Proceed st1 \<Rightarrow>
          LayeredBxDF_f_walk env L rng wi mode exitInterface nonExitInterface exitZ wis k (depth + 1) st1)"

text \<open>One trial of the loop over \<^verbatim>\<open>nSamples\<close>, on the estimate and the stream position.\<close>

definition LayeredBxDF_f_trial ::
  "Collaborators \<Rightarrow> LayeredBxDF \<Rightarrow> (nat \<Rightarrow> Float) \<Rightarrow> Vector3f \<Rightarrow> Vector3f \<Rightarrow> TransportMode \<Rightarrow> bool \<Rightarrow>
   Lobe \<Rightarrow> Lobe \<Rightarrow> Lobe \<Rightarrow> Float \<Rightarrow> SampledSpectrum \<times> nat \<Rightarrow> SampledSpectrum \<times> nat" where
  "LayeredBxDF_f_trial env L rng wo wi mode enteredTop enterInterface exitInterface
     nonExitInterface exitZ st =
     (case st of
        (f0, n) \<Rightarrow>
          (case lobe_Sample_f enterInterface wo (draw env rng n)
                  (Point2f (draw env rng (n + 1)) (draw env rng (n + 2))) mode RT_Transmission of
             None \<Rightarrow> (f0, n + 3)
           | Some wos \<Rightarrow>
               if sample_unusable wos then (f0, n + 3)
               else
                 (case lobe_Sample_f exitInterface wi (draw env rng (n + 3))
                         (Point2f (draw env rng (n + 4)) (draw env rng (n + 5))) (flip_mode mode)
                         RT_Transmission of
                    None \<Rightarrow> (f0, n + 6)
                  | Some wis \<Rightarrow>
                      if sample_unusable wis then (f0, n + 6)
                      else
                        (let st1 = LayeredBxDF_f_walk env L rng wi mode exitInterface nonExitInterface
                                     exitZ wis (nat (lay_maxDepth L)) 0
                                     \<lparr>fs_f = f0,
                                      fs_beta = sp_div (sp_scale (bs_f wos) (AbsCosTheta (bs_wi wos)))
                                                  (bs_pdf wos),
                                      fs_z = (if enteredTop then lay_thickness L else 0),
                                      fs_w = bs_wi wos,
                                      fs_n = n + 6\<rparr>
                         in (fs_f st1, fs_n st1)))))"

fun LayeredBxDF_f_loop ::
  "Collaborators \<Rightarrow> LayeredBxDF \<Rightarrow> (nat \<Rightarrow> Float) \<Rightarrow> Vector3f \<Rightarrow> Vector3f \<Rightarrow> TransportMode \<Rightarrow> bool \<Rightarrow>
   Lobe \<Rightarrow> Lobe \<Rightarrow> Lobe \<Rightarrow> Float \<Rightarrow> nat \<Rightarrow> SampledSpectrum \<times> nat \<Rightarrow> SampledSpectrum \<times> nat" where
  "LayeredBxDF_f_loop env L rng wo wi mode enteredTop enterInterface exitInterface
     nonExitInterface exitZ 0 st = st"
| "LayeredBxDF_f_loop env L rng wo wi mode enteredTop enterInterface exitInterface
     nonExitInterface exitZ (Suc k) st =
     LayeredBxDF_f_loop env L rng wo wi mode enteredTop enterInterface exitInterface
       nonExitInterface exitZ k
       (LayeredBxDF_f_trial env L rng wo wi mode enteredTop enterInterface exitInterface
          nonExitInterface exitZ st)"

definition LayeredBxDF_f ::
  "Collaborators \<Rightarrow> LayeredBxDF \<Rightarrow> Vector3f \<Rightarrow> Vector3f \<Rightarrow> TransportMode \<Rightarrow>
   error + SampledSpectrum" where
  "LayeredBxDF_f env L wo0 wi0 mode =
     (let wo = (if lay_twoSided L \<and> vec_z wo0 < 0 then vneg wo0 else wo0);
          wi = (if lay_twoSided L \<and> vec_z wo0 < 0 then vneg wi0 else wi0);
          enteredTop = (lay_twoSided L \<or> vec_z wo > 0);
          enterInterface = (if enteredTop then lay_top L else lay_bottom L);
          exitInterface = (if SameHemisphere wo wi \<noteq> enteredTop then lay_bottom L else lay_top L);
          nonExitInterface = (if SameHemisphere wo wi \<noteq> enteredTop then lay_top L else lay_bottom L);
          exitZ = (if SameHemisphere wo wi \<noteq> enteredTop then 0 else lay_thickness L);
          f0 = (if SameHemisphere wo wi
                then sp_scale (lobe_f enterInterface wo wi mode) (real_of_int (lay_nSamples L))
                else sp_const 0);
          rng = RNG_dirs env wo wi
      in if lay_nSamples L = 0 then Inl NotANumber
         else Inr (sp_div
                     (fst (LayeredBxDF_f_loop env L rng wo wi mode enteredTop enterInterface
                             exitInterface nonExitInterface exitZ (nat (lay_nSamples L)) (f0, 0)))
                     (real_of_int (lay_nSamples L))))"

section \<open>The BxDF facade\<close>

text \<open>
  \<^verbatim>\<open>BxDF::f\<close>, \<^verbatim>\<open>BxDF::Sample_f\<close> and \<^verbatim>\<open>BxDF::PDF\<close> dispatch on the tag of the variant
  and forward their arguments. The variants here are the lobes whose operations this
  header defines; \<^verbatim>\<open>DielectricBxDF\<close>, \<^verbatim>\<open>HairBxDF\<close> and \<^verbatim>\<open>MeasuredBxDF\<close> are declared
  only (a layered lobe takes them as a \<open>Lobe\<close>). The lambda of \<^verbatim>\<open>BxDF::Sample_f\<close>
  returns \<^verbatim>\<open>pstd::optional<BSDFSample>\<close>, so the plain \<^verbatim>\<open>BSDFSample\<close> of
  \<^verbatim>\<open>NormalizedFresnelBxDF::Sample_f\<close> is converted to an optional that holds it.
\<close>

datatype BxDF =
    TagDiffuse DiffuseBxDF
  | TagDiffuseTransmission DiffuseTransmissionBxDF
  | TagThinDielectric ThinDielectricBxDF
  | TagConductor ConductorBxDF
  | TagNormalizedFresnel NormalizedFresnelBxDF
  | TagDisney DisneyBxDF
  | TagLayered LayeredBxDF

fun BxDF_f ::
  "Collaborators \<Rightarrow> BxDF \<Rightarrow> Vector3f \<Rightarrow> Vector3f \<Rightarrow> TransportMode \<Rightarrow> error + SampledSpectrum" where
  "BxDF_f env (TagDiffuse b) wo wi mode = Inr (DiffuseBxDF_f b wo wi mode)"
| "BxDF_f env (TagDiffuseTransmission b) wo wi mode = Inr (DiffuseTransmissionBxDF_f b wo wi mode)"
| "BxDF_f env (TagThinDielectric b) wo wi mode = Inr (ThinDielectricBxDF_f b wo wi mode)"
| "BxDF_f env (TagConductor b) wo wi mode = Inr (ConductorBxDF_f env b wo wi mode)"
| "BxDF_f env (TagNormalizedFresnel b) wo wi mode = Inr (NormalizedFresnelBxDF_f env b wo wi mode)"
| "BxDF_f env (TagDisney b) wo wi mode = Inr (DisneyBxDF_f env b wo wi mode)"
| "BxDF_f env (TagLayered b) wo wi mode = LayeredBxDF_f env b wo wi mode"

fun BxDF_Sample_f ::
  "Collaborators \<Rightarrow> BxDF \<Rightarrow> Vector3f \<Rightarrow> Float \<Rightarrow> Point2f \<Rightarrow> TransportMode \<Rightarrow> BxDFReflTransFlags \<Rightarrow>
   error + BSDFSample option" where
  "BxDF_Sample_f env (TagDiffuse b) wo uc u mode fl = Inr (DiffuseBxDF_Sample_f env b wo uc u mode fl)"
| "BxDF_Sample_f env (TagDiffuseTransmission b) wo uc u mode fl =
     Inr (DiffuseTransmissionBxDF_Sample_f env b wo uc u mode fl)"
| "BxDF_Sample_f env (TagThinDielectric b) wo uc u mode fl =
     Inr (ThinDielectricBxDF_Sample_f env b wo uc u mode fl)"
| "BxDF_Sample_f env (TagConductor b) wo uc u mode fl =
     Inr (ConductorBxDF_Sample_f env b wo uc u mode fl)"
| "BxDF_Sample_f env (TagNormalizedFresnel b) wo uc u mode fl =
     Inr (Some (NormalizedFresnelBxDF_Sample_f env b wo uc u mode fl))"
| "BxDF_Sample_f env (TagDisney b) wo uc u mode fl = Inr (DisneyBxDF_Sample_f env b wo uc u mode fl)"
| "BxDF_Sample_f env (TagLayered b) wo uc u mode fl = LayeredBxDF_Sample_f env b wo uc u mode fl"

fun BxDF_PDF ::
  "Collaborators \<Rightarrow> BxDF \<Rightarrow> Vector3f \<Rightarrow> Vector3f \<Rightarrow> TransportMode \<Rightarrow> BxDFReflTransFlags \<Rightarrow>
   error + Float" where
  "BxDF_PDF env (TagDiffuse b) wo wi mode fl = Inr (DiffuseBxDF_PDF b wo wi mode fl)"
| "BxDF_PDF env (TagDiffuseTransmission b) wo wi mode fl =
     Inr (DiffuseTransmissionBxDF_PDF b wo wi mode fl)"
| "BxDF_PDF env (TagThinDielectric b) wo wi mode fl = Inr (ThinDielectricBxDF_PDF b wo wi mode fl)"
| "BxDF_PDF env (TagConductor b) wo wi mode fl = Inr (ConductorBxDF_PDF b wo wi mode fl)"
| "BxDF_PDF env (TagNormalizedFresnel b) wo wi mode fl =
     Inr (NormalizedFresnelBxDF_PDF b wo wi mode fl)"
| "BxDF_PDF env (TagDisney b) wo wi mode fl = Inr (DisneyBxDF_PDF b wo wi mode fl)"
| "BxDF_PDF env (TagLayered b) wo wi mode fl = LayeredBxDF_PDF env b wo wi mode fl"

text \<open>A simple lobe as the top or the bottom of a layered lobe.\<close>

definition DiffuseBxDF_lobe :: "Collaborators \<Rightarrow> DiffuseBxDF \<Rightarrow> Lobe" where
  "DiffuseBxDF_lobe env b =
     \<lparr>lobe_f = DiffuseBxDF_f b, lobe_Sample_f = DiffuseBxDF_Sample_f env b,
      lobe_PDF = DiffuseBxDF_PDF b, lobe_Flags = DiffuseBxDF_Flags b\<rparr>"

definition ThinDielectricBxDF_lobe :: "Collaborators \<Rightarrow> ThinDielectricBxDF \<Rightarrow> Lobe" where
  "ThinDielectricBxDF_lobe env b =
     \<lparr>lobe_f = ThinDielectricBxDF_f b, lobe_Sample_f = ThinDielectricBxDF_Sample_f env b,
      lobe_PDF = ThinDielectricBxDF_PDF b, lobe_Flags = ThinDielectricBxDF_Flags b\<rparr>"

text \<open>
  What the theorems ask of the collaborators. A cosine-weighted sample lies in the upper
  hemisphere; a sampled microfacet normal has length one and points upwards.
\<close>

definition upper_hemisphere_sampler :: "Collaborators \<Rightarrow> bool" where
  "upper_hemisphere_sampler env = (\<forall>u. 0 \<le> vec_z (SampleCosineHemisphere env u))"

definition unit_upward_normals :: "TrowbridgeReitzDistribution \<Rightarrow> bool" where
  "unit_upward_normals mf =
     (\<forall>wo u. Length (mf_Sample_wm mf wo u) = 1 \<and> 0 < vec_z (mf_Sample_wm mf wo u))"

fun BxDF_normals_ok :: "BxDF \<Rightarrow> bool" where
  "BxDF_normals_ok (TagConductor b) = unit_upward_normals (cond_mfDistrib b)"
| "BxDF_normals_ok (TagDiffuse b) = True"
| "BxDF_normals_ok (TagDiffuseTransmission b) = True"
| "BxDF_normals_ok (TagThinDielectric b) = True"
| "BxDF_normals_ok (TagNormalizedFresnel b) = True"
| "BxDF_normals_ok (TagDisney b) = True"
| "BxDF_normals_ok (TagLayered b) = True"

text \<open>
  The densities of a lobe and the weights of the power heuristic are not negative.
\<close>

definition nonnegative_PDF :: "Lobe \<Rightarrow> bool" where
  "nonnegative_PDF l = (\<forall>wo wi mode fl. 0 \<le> lobe_PDF l wo wi mode fl)"

definition nonnegative_PowerHeuristic :: "Collaborators \<Rightarrow> bool" where
  "nonnegative_PowerHeuristic env = (\<forall>nf fPdf ng gPdf. 0 \<le> PowerHeuristic env nf fPdf ng gPdf)"

section \<open>Concrete collaborators for the closed instances\<close>

text \<open>
  The closed instances below need collaborators that compute. \<open>test_env\<close> answers with
  constants: its \<open>FrDielectric\<close> is the reflectance at normal incidence of a dielectric
  of index 1.5, \<open>((1.5 - 1) / (1.5 + 1))\<^sup>2 = 1 / 25\<close>; its generator yields one half at
  every position. Its cosine-weighted sampler maps the edge point \<open>(0, 1 / 2)\<close> of the
  unit square to the horizon direction \<open>(-1, 0, 0)\<close>, as the concentric mapping of the
  square onto the disk does, and every other point to the normal. \<open>test_mf\<close> is a rough microfacet distribution whose sampled normal is
  the z-axis.
\<close>

definition test_mf :: TrowbridgeReitzDistribution where
  "test_mf = \<lparr>mf_D = (\<lambda>wm. 1), mf_G = (\<lambda>a b. 1), mf_PDF = (\<lambda>a b. 1),
     mf_Sample_wm = (\<lambda>w u. Vector3f 0 0 1), mf_EffectivelySmooth = False\<rparr>"

definition test_env :: Collaborators where
  "test_env = \<lparr>FrDielectric = (\<lambda>c e. 1 / 25),
     FrComplex = (\<lambda>c e k. sp_const (1 / 2)),
     FresnelMoment1 = (\<lambda>e. 1 / 4),
     SampleCosineHemisphere =
       (\<lambda>u. if u = Point2f 0 (1 / 2) then Vector3f (- 1) 0 0 else Vector3f 0 0 1),
     PowerHeuristic = (\<lambda>nf fp ng gp. 1 / 2),
     SampleExponential = (\<lambda>u a. 1),
     FastExp = (\<lambda>v. 1 / 2),
     HG_p = (\<lambda>g a b. 1),
     HG_PDF = (\<lambda>g a b. 1),
     HG_Sample_p = (\<lambda>g a u. None),
     OneMinusEpsilon = 1 - 1 / 2 ^ 24,
     Float_min = 1 / 2 ^ 126,
     RNG_dirs = (\<lambda>a b n. 1 / 2),
     RNG_sample = (\<lambda>a uc u n. 1 / 2)\<rparr>"

text \<open>
  \<open>test_disney\<close> is a dielectric Disney material without clear coat: its weights are
  \<open>sr = dr = 1 / 2\<close> and \<open>cr = 0\<close>.
\<close>

definition test_disney :: DisneyBxDF where
  "test_disney = mk_DisneyBxDF (sp_const (1 / 2)) (3 / 2) (1 / 2) (1 / 2) 0 0 0 0 0 0 1 False"

text \<open>
  \<open>test_layered\<close> is a two-sided layered lobe: a thin dielectric of index 1.5 over a
  diffuse base, no medium, walks of at most ten steps, two samples.
\<close>

definition test_layered :: LayeredBxDF where
  "test_layered =
     mk_LayeredBxDF test_env True (ThinDielectricBxDF_lobe test_env \<lparr>thin_eta = 3 / 2\<rparr>)
       (DiffuseBxDF_lobe test_env \<lparr>diffuse_R = sp_const (1 / 2)\<rparr>) (1 / 100) (sp_const 0) 0 10 2"

text \<open>\<open>test_layered_no_samples\<close> is the same lobe built with a sample count of zero.\<close>

definition test_layered_no_samples :: LayeredBxDF where
  "test_layered_no_samples =
     mk_LayeredBxDF test_env True (ThinDielectricBxDF_lobe test_env \<lparr>thin_eta = 3 / 2\<rparr>)
       (DiffuseBxDF_lobe test_env \<lparr>diffuse_R = sp_const (1 / 2)\<rparr>) (1 / 100) (sp_const 0) 0 10 0"

text \<open>
  Two walk states at depth four whose throughput has the maximum component \<open>1 / 8\<close>, so
  that Russian roulette applies with \<open>q = 7 / 8\<close>.
\<close>

definition test_f_state :: f_state where
  "test_f_state =
     \<lparr>fs_f = sp_const 0, fs_beta = sp_const (1 / 8), fs_z = 0, fs_w = Vector3f 0 0 1, fs_n = 0\<rparr>"

definition test_s_state :: s_state where
  "test_s_state =
     \<lparr>ss_f = sp_const (1 / 8), ss_pdf = 1, ss_z = 0, ss_w = Vector3f 0 0 1,
      ss_specularPath = True, ss_n = 0\<rparr>"



section \<open>Properties\<close>

subsection \<open>Vector algebra\<close>

lemma Dot_Normalize: "Dot a (Normalize v) = Dot a v / Length v"
  by (simp add: Dot_def Normalize_def add_divide_distrib)

lemma vadd_commute: "vadd a b = vadd b a"
  by (simp add: vadd_def add.commute)

lemma Dot_vadd_equal_length:
  "LengthSquared a = LengthSquared b \<Longrightarrow> Dot a (vadd a b) = Dot b (vadd a b)"
  by (simp add: Dot_def vadd_def LengthSquared_def Sqr_def algebra_simps)

lemma SameHemisphere_commute: "SameHemisphere a b = SameHemisphere b a"
  by (simp add: SameHemisphere_def mult.commute)

subsection \<open>NormalizedFresnelBxDF: the adjoint scaling\<close>

text \<open>
  Claim C3 as the code has it. For \<open>wo\<close> and \<open>wi\<close> in the same hemisphere,
  \<^verbatim>\<open>NormalizedFresnelBxDF::f\<close> is \<open>(1 - FrDielectric(cos \<theta>\<^sub>i, \<eta>)) / (c \<pi>)\<close> with
  \<open>c = 1 - 2 FresnelMoment1(1 / \<eta>)\<close>, multiplied by \<open>\<eta>\<^sup>2\<close> when the transport mode is
  Radiance and left as it is when the mode is Importance.
\<close>

theorem NormalizedFresnelBxDF_f_scaling:
  assumes "SameHemisphere wo wi"
  shows "NormalizedFresnelBxDF_f env b wo wi Radiance =
           sp_scale (sp_const ((1 - FrDielectric env (CosTheta wi) (nf_eta b)) /
                       ((1 - 2 * FresnelMoment1 env (1 / nf_eta b)) * pi))) (Sqr (nf_eta b))
       \<and> NormalizedFresnelBxDF_f env b wo wi Importance =
           sp_const ((1 - FrDielectric env (CosTheta wi) (nf_eta b)) /
                       ((1 - 2 * FresnelMoment1 env (1 / nf_eta b)) * pi))"
  using assms by (simp add: NormalizedFresnelBxDF_f_def Let_def)

theorem NormalizedFresnelBxDF_f_scaling_witness:
  "SameHemisphere (Vector3f 0 0 1) (Vector3f 0 0 1)
   \<and> NormalizedFresnelBxDF_f test_env \<lparr>nf_eta = 3 / 2\<rparr> (Vector3f 0 0 1) (Vector3f 0 0 1) Radiance =
       sp_const (108 / (25 * pi))
   \<and> NormalizedFresnelBxDF_f test_env \<lparr>nf_eta = 3 / 2\<rparr> (Vector3f 0 0 1) (Vector3f 0 0 1) Importance =
       sp_const (48 / (25 * pi))"
proof -
  have h: "SameHemisphere (Vector3f 0 0 1) (Vector3f 0 0 1)"
    by (simp add: SameHemisphere_def)
  show ?thesis
    using h NormalizedFresnelBxDF_f_scaling [OF h, of test_env "\<lparr>nf_eta = 3 / 2\<rparr>"]
    by (simp add: test_env_def sp_const_def sp_scale_def Sqr_def CosTheta_def)
qed

text \<open>
  Claim C3 as the spec states it fails: at normal incidence and \<open>\<eta> = 1.5\<close> the value
  under Importance is not the base term times \<open>\<eta>\<^sup>2\<close>, and the value under Radiance is
  not the base term alone.
\<close>

theorem NormalizedFresnelBxDF_f_Importance_counterexample:
  "NormalizedFresnelBxDF_f test_env \<lparr>nf_eta = 3 / 2\<rparr> (Vector3f 0 0 1) (Vector3f 0 0 1) Importance
     \<noteq> sp_scale (sp_const ((1 - FrDielectric test_env (CosTheta (Vector3f 0 0 1)) (3 / 2)) /
                    ((1 - 2 * FresnelMoment1 test_env (1 / (3 / 2))) * pi))) (Sqr (3 / 2))
   \<and> NormalizedFresnelBxDF_f test_env \<lparr>nf_eta = 3 / 2\<rparr> (Vector3f 0 0 1) (Vector3f 0 0 1) Radiance
     \<noteq> sp_const ((1 - FrDielectric test_env (CosTheta (Vector3f 0 0 1)) (3 / 2)) /
                    ((1 - 2 * FresnelMoment1 test_env (1 / (3 / 2))) * pi))"
  by (simp add: NormalizedFresnelBxDF_f_def SameHemisphere_def test_env_def sp_const_def
      sp_scale_def Sqr_def CosTheta_def Let_def)

subsection \<open>ThinDielectricBxDF at normal incidence\<close>

text \<open>
  Claim C7. For \<open>wo = (0, 0, 1)\<close>, \<open>\<eta> = 1.5\<close> and an unrestricted request, with
  \<open>R = FrDielectric(1, 1.5)\<close> and \<open>T = 1 - R\<close>, \<^verbatim>\<open>ThinDielectricBxDF::Sample_f\<close> works with
  \<open>R' = R + T\<^sup>2 R / (1 - R\<^sup>2)\<close> (when \<open>R < 1\<close>, else \<open>R' = R\<close>) and \<open>T' = 1 - R'\<close>: it reflects
  when \<open>uc < R' / (R' + T')\<close> and transmits otherwise, the returned density is the
  probability of the branch taken, and the two probabilities sum to one.
\<close>

theorem ThinDielectricBxDF_Sample_f_normal_incidence:
  "(let R = FrDielectric env 1 (3 / 2);
        T = 1 - R;
        R' = (if R < 1 then R + Sqr T * R / (1 - Sqr R) else R);
        T' = 1 - R'
    in ThinDielectricBxDF_Sample_f env \<lparr>thin_eta = 3 / 2\<rparr> (Vector3f 0 0 1) uc u mode RT_All =
         Some (if uc < R' / (R' + T')
               then mk_BSDFSample (sp_const (R' / 1)) (Vector3f 0 0 1) (R' / (R' + T'))
                      SpecularReflection
               else mk_BSDFSample (sp_const (T' / 1)) (Vector3f 0 0 (- 1)) (T' / (R' + T'))
                      SpecularTransmission)
       \<and> R' / (R' + T') + T' / (R' + T') = 1)"
  by (simp add: ThinDielectricBxDF_Sample_f_def AbsCosTheta_def vneg_def Let_def)

subsection \<open>Reciprocity of DiffuseBxDF and ConductorBxDF\<close>

text \<open>
  Claim C8. For directions \<open>wo\<close> and \<open>wi\<close> of equal length (the spec's directions are unit
  vectors) and a microfacet distribution whose masking term \<open>G\<close> is symmetric,
  \<^verbatim>\<open>DiffuseBxDF::f\<close> and \<^verbatim>\<open>ConductorBxDF::f\<close> give the same value at \<open>(wo, wi)\<close> and at
  \<open>(wi, wo)\<close>, in matching hemispheres and elsewhere.
\<close>

theorem reciprocity_Diffuse_Conductor:
  assumes len: "LengthSquared wo = LengthSquared wi"
    and G: "\<forall>a b. mf_G (cond_mfDistrib c) a b = mf_G (cond_mfDistrib c) b a"
  shows "DiffuseBxDF_f d wo wi mode = DiffuseBxDF_f d wi wo mode
       \<and> ConductorBxDF_f env c wo wi mode = ConductorBxDF_f env c wi wo mode"
proof
  show "DiffuseBxDF_f d wo wi mode = DiffuseBxDF_f d wi wo mode"
    by (simp add: DiffuseBxDF_f_def SameHemisphere_commute [of wo wi])
next
  have dot: "AbsDot wo (Normalize (vadd wi wo)) = AbsDot wi (Normalize (vadd wi wo))"
    using Dot_vadd_equal_length [OF len]
    by (simp add: AbsDot_def Dot_Normalize vadd_commute [of wi wo])
  have g: "mf_G (cond_mfDistrib c) wo wi = mf_G (cond_mfDistrib c) wi wo"
    using G by blast
  show "ConductorBxDF_f env c wo wi mode = ConductorBxDF_f env c wi wo mode"
    using dot g
    by (simp add: ConductorBxDF_f_def Let_def SameHemisphere_commute [of wo wi]
        vadd_commute [of wi wo] mult_ac disj_commute)
qed

theorem reciprocity_Diffuse_Conductor_witness:
  "LengthSquared (Vector3f 0 0 1) = LengthSquared (Vector3f 0 (3 / 5) (4 / 5))
   \<and> (\<forall>a b. mf_G (cond_mfDistrib \<lparr>cond_mfDistrib = test_mf, cond_eta = sp_const 1, cond_k = sp_const 2\<rparr>) a b
            = mf_G (cond_mfDistrib \<lparr>cond_mfDistrib = test_mf, cond_eta = sp_const 1, cond_k = sp_const 2\<rparr>) b a)
   \<and> DiffuseBxDF_f \<lparr>diffuse_R = sp_const (1 / 2)\<rparr> (Vector3f 0 0 1) (Vector3f 0 (3 / 5) (4 / 5)) Radiance
       = DiffuseBxDF_f \<lparr>diffuse_R = sp_const (1 / 2)\<rparr> (Vector3f 0 (3 / 5) (4 / 5)) (Vector3f 0 0 1) Radiance
   \<and> ConductorBxDF_f test_env \<lparr>cond_mfDistrib = test_mf, cond_eta = sp_const 1, cond_k = sp_const 2\<rparr>
         (Vector3f 0 0 1) (Vector3f 0 (3 / 5) (4 / 5)) Radiance
       = ConductorBxDF_f test_env \<lparr>cond_mfDistrib = test_mf, cond_eta = sp_const 1, cond_k = sp_const 2\<rparr>
           (Vector3f 0 (3 / 5) (4 / 5)) (Vector3f 0 0 1) Radiance"
proof -
  have len: "LengthSquared (Vector3f 0 0 1) = LengthSquared (Vector3f 0 (3 / 5) (4 / 5))"
    by (simp add: LengthSquared_def Sqr_def)
  have G: "\<forall>a b. mf_G (cond_mfDistrib \<lparr>cond_mfDistrib = test_mf, cond_eta = sp_const 1, cond_k = sp_const 2\<rparr>) a b
            = mf_G (cond_mfDistrib \<lparr>cond_mfDistrib = test_mf, cond_eta = sp_const 1, cond_k = sp_const 2\<rparr>) b a"
    by (simp add: test_mf_def)
  show ?thesis
    using len G reciprocity_Diffuse_Conductor [OF len G]
    by blast
qed

subsection \<open>DisneyBxDF\<close>

lemma vneg_vneg: "vneg (vneg w) = w"
  by (simp add: vneg_def)

lemma vec_z_vneg: "vec_z (vneg w) = - vec_z w"
  by (simp add: vneg_def)

lemma ComputeWeights_sum:
  assumes "(dis_metallic d + (1 - dis_metallic d)) + (1 - dis_metallic d) + dis_clearcoat d \<noteq> 0"
  shows "(case ComputeWeights d of (sr, dr, cr) \<Rightarrow> sr + dr + cr) = 1"
proof -
  define n where "n = (dis_metallic d + (1 - dis_metallic d)) + (1 - dis_metallic d) + dis_clearcoat d"
  have "(dis_metallic d + (1 - dis_metallic d)) * (1 / n) + (1 - dis_metallic d) * (1 / n)
          + dis_clearcoat d * (1 / n) = n * (1 / n)"
    unfolding n_def by (simp only: distrib_right)
  also have "\<dots> = 1"
    using assms unfolding n_def by simp
  finally show ?thesis
    unfolding n_def by (simp add: ComputeWeights_def Let_def)
qed

lemma BRDF_PDF_upper:
  "\<not> (dis_twoSided d \<and> vec_z wo < 0) \<Longrightarrow>
   BRDF_PDF d wo wi = (case ComputeWeights d of
           (sr, dr, cr) \<Rightarrow> BRDF_pdfSpec d wo wi * sr + BRDF_pdfDiff wi * dr + BRDF_pdfCc d wo wi * cr)"
  by (auto simp: BRDF_PDF_def Let_def)

lemma BRDF_PDF_flip:
  "dis_twoSided d \<Longrightarrow> vec_z wo < 0 \<Longrightarrow> BRDF_PDF d wo wi = BRDF_PDF d (vneg wo) (vneg wi)"
  by (simp add: BRDF_PDF_def Let_def vec_z_vneg)

text \<open>
  Claim C9. Whenever \<^verbatim>\<open>DisneyBxDF::Sample_f\<close> returns a sample, and the sum
  \<open>sw + dw + cw\<close> that \<^verbatim>\<open>ComputeWeights\<close> divides by is not zero, the three weights sum to
  one, the returned density is \<open>pdfSpec sr + pdfDiff dr + pdfCc cr\<close> at the sampled
  direction (all three branches, whichever \<open>uc\<close> chose), and it equals
  \<^verbatim>\<open>PDF(wo, wi)\<close> at the returned direction.
\<close>

theorem DisneyBxDF_Sample_f_density:
  assumes S: "DisneyBxDF_Sample_f env d wo uc u mode sampleFlags = Some s"
    and nz: "(dis_metallic d + (1 - dis_metallic d)) + (1 - dis_metallic d) + dis_clearcoat d \<noteq> 0"
  shows "(case ComputeWeights d of
            (sr, dr, cr) \<Rightarrow>
              sr + dr + cr = 1
              \<and> bs_pdf s =
                  BRDF_pdfSpec d (if dis_twoSided d \<and> vec_z wo < 0 then vneg wo else wo)
                    (if dis_twoSided d \<and> vec_z wo < 0 then vneg (bs_wi s) else bs_wi s) * sr
                  + BRDF_pdfDiff (if dis_twoSided d \<and> vec_z wo < 0 then vneg (bs_wi s) else bs_wi s) * dr
                  + BRDF_pdfCc d (if dis_twoSided d \<and> vec_z wo < 0 then vneg wo else wo)
                      (if dis_twoSided d \<and> vec_z wo < 0 then vneg (bs_wi s) else bs_wi s) * cr)
         \<and> bs_pdf s = DisneyBxDF_PDF d wo (bs_wi s) mode sampleFlags"
proof -
  obtain sr dr cr where W: "ComputeWeights d = (sr, dr, cr)"
    by (cases "ComputeWeights d") auto
  have sum: "sr + dr + cr = 1"
    using ComputeWeights_sum [OF nz] W by simp
  show ?thesis
  proof (cases "dis_twoSided d \<and> vec_z wo < 0")
    case True
    then obtain wi flag where
      B: "DisneyBxDF_sample_branch env d (vneg wo) uc u = Some (wi, flag)"
      and s: "s = mk_BSDFSample (BRDF_F env d (vneg wo) wi) (vneg wi) (BRDF_PDF d (vneg wo) wi) flag"
      using S by (auto simp: DisneyBxDF_Sample_f_def Let_def split: option.splits)
    have up: "\<not> (dis_twoSided d \<and> vec_z (vneg wo) < 0)"
      using True by (simp add: vec_z_vneg)
    have pdf: "bs_pdf s = BRDF_PDF d (vneg wo) wi" and wi: "bs_wi s = vneg wi"
      using s by (simp_all add: mk_BSDFSample_def)
    have "BRDF_PDF d wo (vneg wi) = BRDF_PDF d (vneg wo) wi"
      using True BRDF_PDF_flip [of d wo "vneg wi"] by (simp add: vneg_vneg)
    then show ?thesis
      using True W sum pdf wi BRDF_PDF_upper [OF up, of wi]
      by (simp add: DisneyBxDF_PDF_def vneg_vneg)
  next
    case False
    then obtain wi flag where
      B: "DisneyBxDF_sample_branch env d wo uc u = Some (wi, flag)"
      and s: "s = mk_BSDFSample (BRDF_F env d wo wi) wi (BRDF_PDF d wo wi) flag"
      using S by (auto simp: DisneyBxDF_Sample_f_def Let_def split: option.splits)
    have pdf: "bs_pdf s = BRDF_PDF d wo wi" and wi: "bs_wi s = wi"
      using s by (simp_all add: mk_BSDFSample_def)
    show ?thesis
      using False W sum pdf wi BRDF_PDF_upper [OF False, of wi]
      by (auto simp: DisneyBxDF_PDF_def)
  qed
qed

lemma test_disney_Sample_wm:
  "DisneyBxDF_Sample_wm test_disney (Vector3f 0 0 1) (Point2f 0 0) = Vector3f 0 0 1"
  by (simp add: DisneyBxDF_Sample_wm_def test_disney_def mk_DisneyBxDF_def Normalize_def Length_def
      LengthSquared_def Sqr_def Cross_def vadd_def vscale_def Let_def)

lemma test_disney_branch:
  "DisneyBxDF_sample_branch env test_disney (Vector3f 0 0 1) (1 / 4) (Point2f 0 0)
     = Some (Vector3f 0 0 1, GlossyReflection)"
  by (simp add: DisneyBxDF_sample_branch_def test_disney_Sample_wm ComputeWeights_def Let_def
      CosTheta_def Reflect_def Dot_def vadd_def vneg_def vscale_def SameHemisphere_def)
     (simp add: test_disney_def mk_DisneyBxDF_def)

lemma test_disney_weights: "ComputeWeights test_disney = (1 / 2, 1 / 2, 0)"
  by (simp add: ComputeWeights_def test_disney_def mk_DisneyBxDF_def Let_def)

lemma test_disney_Sample_f:
  "DisneyBxDF_Sample_f env test_disney (Vector3f 0 0 1) (1 / 4) (Point2f 0 0) mode sampleFlags
     = Some (mk_BSDFSample (BRDF_F env test_disney (Vector3f 0 0 1) (Vector3f 0 0 1))
               (Vector3f 0 0 1) (BRDF_PDF test_disney (Vector3f 0 0 1) (Vector3f 0 0 1))
               GlossyReflection)"
  by (simp add: DisneyBxDF_Sample_f_def test_disney_branch Let_def)

theorem DisneyBxDF_Sample_f_density_witness:
  "DisneyBxDF_Sample_f test_env test_disney (Vector3f 0 0 1) (1 / 4) (Point2f 0 0) Radiance RT_All
     = Some (mk_BSDFSample (BRDF_F test_env test_disney (Vector3f 0 0 1) (Vector3f 0 0 1))
               (Vector3f 0 0 1) (BRDF_PDF test_disney (Vector3f 0 0 1) (Vector3f 0 0 1))
               GlossyReflection)
   \<and> (dis_metallic test_disney + (1 - dis_metallic test_disney)) + (1 - dis_metallic test_disney)
        + dis_clearcoat test_disney \<noteq> 0
   \<and> ComputeWeights test_disney = (1 / 2, 1 / 2, 0)
   \<and> BRDF_PDF test_disney (Vector3f 0 0 1) (Vector3f 0 0 1)
       = BRDF_pdfSpec test_disney (Vector3f 0 0 1) (Vector3f 0 0 1) * (1 / 2)
         + BRDF_pdfDiff (Vector3f 0 0 1) * (1 / 2)
         + BRDF_pdfCc test_disney (Vector3f 0 0 1) (Vector3f 0 0 1) * 0
   \<and> BRDF_PDF test_disney (Vector3f 0 0 1) (Vector3f 0 0 1)
       = DisneyBxDF_PDF test_disney (Vector3f 0 0 1) (Vector3f 0 0 1) Radiance RT_All"
proof -
  have nz: "(dis_metallic test_disney + (1 - dis_metallic test_disney)) + (1 - dis_metallic test_disney)
        + dis_clearcoat test_disney \<noteq> 0"
    by (simp add: test_disney_def mk_DisneyBxDF_def)
  note S = test_disney_Sample_f [of test_env Radiance RT_All]
  show ?thesis
    using S nz DisneyBxDF_Sample_f_density [OF S nz]
    by (simp add: test_disney_weights mk_BSDFSample_def)
qed

subsection \<open>LayeredBxDF::PDF: the blend with the isotropic density\<close>

lemma LayeredBxDF_PDF_TRT_nonneg:
  assumes top: "nonnegative_PDF (lay_top L)" and bot: "nonnegative_PDF (lay_bottom L)"
    and ph: "nonnegative_PowerHeuristic env" and st: "0 \<le> fst st"
  shows "0 \<le> fst (LayeredBxDF_PDF_TRT env L rng wo wi mode enteredTop st)"
proof -
  have P: "\<And>a b m fl. 0 \<le> lobe_PDF (lay_top L) a b m fl"
          "\<And>a b m fl. 0 \<le> lobe_PDF (lay_bottom L) a b m fl"
    using top bot by (simp_all add: nonnegative_PDF_def)
  have W: "\<And>nf fp ng gp. 0 \<le> PowerHeuristic env nf fp ng gp"
    using ph by (simp add: nonnegative_PowerHeuristic_def)
  obtain s n where [simp]: "st = (s, n)" by (cases st)
  have s: "0 \<le> s" using st by simp
  show ?thesis
    using s P W
    by (cases enteredTop)
       (auto simp: LayeredBxDF_PDF_TRT_def Let_def split: option.splits
             intro!: add_nonneg_nonneg mult_nonneg_nonneg)
qed

lemma LayeredBxDF_PDF_TT_nonneg:
  assumes top: "nonnegative_PDF (lay_top L)" and bot: "nonnegative_PDF (lay_bottom L)"
    and st: "0 \<le> fst st"
  shows "0 \<le> fst (LayeredBxDF_PDF_TT env L rng wo wi mode enteredTop st)"
proof -
  have P: "\<And>a b m fl. 0 \<le> lobe_PDF (lay_top L) a b m fl"
          "\<And>a b m fl. 0 \<le> lobe_PDF (lay_bottom L) a b m fl"
    using top bot by (simp_all add: nonnegative_PDF_def)
  obtain s n where [simp]: "st = (s, n)" by (cases st)
  have s: "0 \<le> s" using st by simp
  show ?thesis
    using s P
    by (cases enteredTop)
       (auto simp: LayeredBxDF_PDF_TT_def Let_def split: option.splits
             intro!: add_nonneg_nonneg)
qed

lemma LayeredBxDF_PDF_loop_nonneg:
  assumes top: "nonnegative_PDF (lay_top L)" and bot: "nonnegative_PDF (lay_bottom L)"
    and ph: "nonnegative_PowerHeuristic env"
  shows "0 \<le> fst st \<Longrightarrow> 0 \<le> fst (LayeredBxDF_PDF_loop env L rng wo wi mode enteredTop k st)"
proof (induction k arbitrary: st)
  case 0
  then show ?case by simp
next
  case (Suc k)
  have "0 \<le> fst (LayeredBxDF_PDF_trial env L rng wo wi mode enteredTop st)"
    using LayeredBxDF_PDF_TRT_nonneg [OF top bot ph Suc.prems]
      LayeredBxDF_PDF_TT_nonneg [OF top bot Suc.prems]
    by (simp add: LayeredBxDF_PDF_trial_def)
  then show ?case
    using Suc.IH by simp
qed

lemma LayeredBxDF_estimate_nonneg:
  assumes top: "nonnegative_PDF (lay_top L)" and bot: "nonnegative_PDF (lay_bottom L)"
    and ph: "nonnegative_PowerHeuristic env" and n: "lay_nSamples L \<noteq> 0"
  shows "0 \<le> LayeredBxDF_pdfSum env L wo wi mode / real_of_int (lay_nSamples L)"
proof (cases "0 < lay_nSamples L")
  case True
  have P: "\<And>a b m fl. 0 \<le> lobe_PDF (lay_top L) a b m fl"
          "\<And>a b m fl. 0 \<le> lobe_PDF (lay_bottom L) a b m fl"
    using top bot by (simp_all add: nonnegative_PDF_def)
  have "0 \<le> LayeredBxDF_pdfSum env L wo wi mode"
    unfolding LayeredBxDF_pdfSum_def Let_def
    by (rule LayeredBxDF_PDF_loop_nonneg [OF top bot ph]) (use True P in auto)
  then show ?thesis
    using True by simp
next
  case False
  then have neg: "lay_nSamples L < 0" using n by simp
  have P: "\<And>a b m fl. 0 \<le> lobe_PDF (lay_top L) a b m fl"
          "\<And>a b m fl. 0 \<le> lobe_PDF (lay_bottom L) a b m fl"
    using top bot by (simp_all add: nonnegative_PDF_def)
  show ?thesis
    using neg P by (simp add: LayeredBxDF_pdfSum_def Let_def)
qed

lemma LayeredBxDF_pdfSum_no_samples:
  "lay_nSamples L = 0 \<Longrightarrow> LayeredBxDF_pdfSum env L wo wi mode = 0"
  by (simp add: LayeredBxDF_pdfSum_def Let_def)

text \<open>
  Claim C1 as the code has it. For a layered lobe whose sample count \<^verbatim>\<open>nSamples\<close> is not
  zero and every pair of directions, \<^verbatim>\<open>LayeredBxDF::PDF\<close> with \<^verbatim>\<open>sampleFlags\<close> equal to
  \<^verbatim>\<open>All\<close> returns \<open>0.9 (pdfSum / nSamples) + 0.1 / (4 \<pi>)\<close>; when the densities of the two
  sub-lobes and the weights of the power heuristic are not negative, the returned
  density is at least \<open>0.1 / (4 \<pi>)\<close> and strictly positive.
\<close>

theorem LayeredBxDF_PDF_blend:
  assumes n: "lay_nSamples L \<noteq> 0"
  shows "LayeredBxDF_PDF env L wo wi mode RT_All =
     Inr (9 / 10 * (LayeredBxDF_pdfSum env L wo wi mode / real_of_int (lay_nSamples L))
          + 1 / 10 * (1 / (4 * pi)))
   \<and> (nonnegative_PDF (lay_top L) \<and> nonnegative_PDF (lay_bottom L)
        \<and> nonnegative_PowerHeuristic env
      \<longrightarrow> 1 / 10 * (1 / (4 * pi))
            \<le> 9 / 10 * (LayeredBxDF_pdfSum env L wo wi mode / real_of_int (lay_nSamples L))
              + 1 / 10 * (1 / (4 * pi))
          \<and> 0 < 9 / 10 * (LayeredBxDF_pdfSum env L wo wi mode / real_of_int (lay_nSamples L))
              + 1 / 10 * (1 / (4 * pi)))"
proof (intro conjI impI)
  show "LayeredBxDF_PDF env L wo wi mode RT_All =
     Inr (9 / 10 * (LayeredBxDF_pdfSum env L wo wi mode / real_of_int (lay_nSamples L))
          + 1 / 10 * (1 / (4 * pi)))"
    using n by (simp add: LayeredBxDF_PDF_def LayeredBxDF_PDF_body_def Lerp_def)
next
  assume H: "nonnegative_PDF (lay_top L) \<and> nonnegative_PDF (lay_bottom L)
        \<and> nonnegative_PowerHeuristic env"
  then have e: "0 \<le> LayeredBxDF_pdfSum env L wo wi mode / real_of_int (lay_nSamples L)"
    using LayeredBxDF_estimate_nonneg n by blast
  show "1 / 10 * (1 / (4 * pi))
            \<le> 9 / 10 * (LayeredBxDF_pdfSum env L wo wi mode / real_of_int (lay_nSamples L))
              + 1 / 10 * (1 / (4 * pi))"
    using e by simp
  have "0 < 1 / 10 * (1 / (4 * pi))" by simp
  then show "0 < 9 / 10 * (LayeredBxDF_pdfSum env L wo wi mode / real_of_int (lay_nSamples L))
              + 1 / 10 * (1 / (4 * pi))"
    using e by (intro add_nonneg_pos mult_nonneg_nonneg) simp_all
qed

text \<open>
  Claim C1 as the spec states it, for every instance, fails: the constructor stores any
  \<^verbatim>\<open>int\<close> as \<^verbatim>\<open>nSamples\<close>, and for a lobe built with \<^verbatim>\<open>nSamples\<close> zero the sum is zero,
  the quotient is \<open>0 / 0\<close>, and \<^verbatim>\<open>PDF\<close> returns NaN: no density of at least
  \<open>0.1 / (4 \<pi>)\<close>, and not the blend of a number with the isotropic density.
\<close>

theorem LayeredBxDF_PDF_blend_counterexample:
  "lay_nSamples test_layered_no_samples = 0
   \<and> LayeredBxDF_pdfSum test_env test_layered_no_samples (Vector3f 0 0 1) (Vector3f 0 0 1) Radiance = 0
   \<and> LayeredBxDF_PDF test_env test_layered_no_samples (Vector3f 0 0 1) (Vector3f 0 0 1) Radiance RT_All
       = Inl NotANumber
   \<and> LayeredBxDF_PDF test_env test_layered_no_samples (Vector3f 0 0 1) (Vector3f 0 0 1) Radiance RT_All
       \<noteq> Inr (9 / 10 * (LayeredBxDF_pdfSum test_env test_layered_no_samples (Vector3f 0 0 1)
                           (Vector3f 0 0 1) Radiance
                         / real_of_int (lay_nSamples test_layered_no_samples))
              + 1 / 10 * (1 / (4 * pi)))"
proof -
  have n: "lay_nSamples test_layered_no_samples = 0"
    by (simp add: test_layered_no_samples_def mk_LayeredBxDF_def)
  show ?thesis
    using n LayeredBxDF_pdfSum_no_samples [OF n]
    by (simp add: LayeredBxDF_PDF_def LayeredBxDF_PDF_body_def)
qed

lemma test_layered_fields:
  "lay_top test_layered = ThinDielectricBxDF_lobe test_env \<lparr>thin_eta = 3 / 2\<rparr>"
  "lay_bottom test_layered = DiffuseBxDF_lobe test_env \<lparr>diffuse_R = sp_const (1 / 2)\<rparr>"
  "lay_nSamples test_layered = 2"
  "lay_maxDepth test_layered = 10"
  "lay_twoSided test_layered = True"
  "lay_albedo test_layered = sp_const 0"
  "lay_thickness test_layered = 1 / 100"
  by (simp_all add: test_layered_def mk_LayeredBxDF_def test_env_def)

lemma test_layered_contracts:
  "nonnegative_PDF (lay_top test_layered)"
  "nonnegative_PDF (lay_bottom test_layered)"
  "nonnegative_PowerHeuristic test_env"
  by (simp_all add: test_layered_fields nonnegative_PDF_def nonnegative_PowerHeuristic_def
      ThinDielectricBxDF_lobe_def DiffuseBxDF_lobe_def ThinDielectricBxDF_PDF_def
      DiffuseBxDF_PDF_def CosineHemispherePDF_def AbsCosTheta_def InvPi_def test_env_def)

lemma test_thin_transmit:
  "ThinDielectricBxDF_Sample_f test_env \<lparr>thin_eta = 3 / 2\<rparr> (Vector3f 0 0 1) (1 / 2) u mode
     RT_Transmission
   = Some (mk_BSDFSample (sp_const (12 / 13)) (Vector3f 0 0 (- 1)) 1 SpecularTransmission)"
  by (simp add: ThinDielectricBxDF_Sample_f_def test_env_def Let_def Sqr_def AbsCosTheta_def
      vneg_def)

lemma test_draw: "draw test_env (RNG_dirs test_env a b) n = 1 / 2"
  by (simp add: draw_def test_env_def)

lemma test_layered_trial:
  "LayeredBxDF_PDF_trial test_env test_layered (RNG_dirs test_env (Vector3f 0 0 1) (Vector3f 0 0 1))
     (Vector3f 0 0 1) (Vector3f 0 0 1) Radiance True (s, n) = (s + 1 / pi, n + 6)"
  by (simp add: LayeredBxDF_PDF_trial_def LayeredBxDF_PDF_TRT_def SameHemisphere_def
      test_layered_fields ThinDielectricBxDF_lobe_def ThinDielectricBxDF_Flags_def
      DiffuseBxDF_lobe_def test_draw
      test_thin_transmit mk_BSDFSample_def sp_const_def IsNonSpecular_def DiffuseBxDF_PDF_def
      vneg_def CosineHemispherePDF_def AbsCosTheta_def InvPi_def Let_def)

lemma test_layered_pdfSum:
  "LayeredBxDF_pdfSum test_env test_layered (Vector3f 0 0 1) (Vector3f 0 0 1) Radiance = 2 / pi"
proof -
  show ?thesis
    by (simp add: LayeredBxDF_pdfSum_def test_layered_fields numeral_2_eq_2 test_layered_trial
        SameHemisphere_def ThinDielectricBxDF_lobe_def ThinDielectricBxDF_PDF_def Let_def)
qed

theorem LayeredBxDF_PDF_blend_witness:
  "lay_nSamples test_layered \<noteq> 0
   \<and> nonnegative_PDF (lay_top test_layered) \<and> nonnegative_PDF (lay_bottom test_layered)
   \<and> nonnegative_PowerHeuristic test_env
   \<and> LayeredBxDF_PDF test_env test_layered (Vector3f 0 0 1) (Vector3f 0 0 1) Radiance RT_All
       = Inr (37 / (40 * pi))
   \<and> 1 / 10 * (1 / (4 * pi)) \<le> 37 / (40 * pi)
   \<and> (0 :: real) < 37 / (40 * pi)"
proof -
  have v: "9 / 10 * ((2 / pi) / real_of_int 2) + 1 / 10 * (1 / (4 * pi)) = 37 / (40 * pi)"
    by (simp add: field_simps)
  have n: "lay_nSamples test_layered \<noteq> 0"
    by (simp add: test_layered_fields)
  show ?thesis
    using LayeredBxDF_PDF_blend [OF n, of test_env "Vector3f 0 0 1" "Vector3f 0 0 1" Radiance]
      test_layered_contracts v
    by (simp add: test_layered_pdfSum test_layered_fields)
qed

subsection \<open>LayeredBxDF: the request must be unrestricted\<close>

text \<open>
  Claim C10. \<^verbatim>\<open>LayeredBxDF::Sample_f\<close> and \<^verbatim>\<open>LayeredBxDF::PDF\<close> start with
  \<^verbatim>\<open>CHECK(sampleFlags == BxDFReflTransFlags::All)\<close>: for every other value of
  \<^verbatim>\<open>sampleFlags\<close> both fail the check, called directly or through the facade, and no
  restricted request is served: past the check neither body reads \<^verbatim>\<open>sampleFlags\<close>. With
  \<^verbatim>\<open>All\<close> the check passes: \<^verbatim>\<open>Sample_f\<close> runs its body and \<^verbatim>\<open>PDF\<close> returns its blended
  estimate, which is not a number when \<^verbatim>\<open>nSamples\<close> is zero.
\<close>

theorem LayeredBxDF_requires_All:
  assumes "sampleFlags \<noteq> RT_All"
  shows "LayeredBxDF_Sample_f env L wo uc u mode sampleFlags = Inl CheckFailed
       \<and> LayeredBxDF_PDF env L wo wi mode sampleFlags = Inl CheckFailed
       \<and> BxDF_Sample_f env (TagLayered L) wo uc u mode sampleFlags = Inl CheckFailed
       \<and> BxDF_PDF env (TagLayered L) wo wi mode sampleFlags = Inl CheckFailed
       \<and> LayeredBxDF_Sample_f env L wo uc u mode RT_All
           = Inr (LayeredBxDF_Sample_f_body env L wo uc u mode)
       \<and> LayeredBxDF_PDF env L wo wi mode RT_All
           = (if lay_nSamples L = 0 then Inl NotANumber
              else Inr (Lerp (9 / 10) (1 / (4 * pi))
                          (LayeredBxDF_pdfSum env L wo wi mode / real_of_int (lay_nSamples L))))"
  using assms
  by (simp add: LayeredBxDF_Sample_f_def LayeredBxDF_PDF_def LayeredBxDF_PDF_body_def)

theorem LayeredBxDF_requires_All_witness:
  "RT_Reflection \<noteq> RT_All \<and> RT_Transmission \<noteq> RT_All
   \<and> LayeredBxDF_Sample_f test_env test_layered (Vector3f 0 0 1) (1 / 2) (Point2f 0 0) Radiance
        RT_Reflection = Inl CheckFailed
   \<and> LayeredBxDF_PDF test_env test_layered (Vector3f 0 0 1) (Vector3f 0 0 1) Radiance RT_Reflection
        = Inl CheckFailed
   \<and> BxDF_Sample_f test_env (TagLayered test_layered) (Vector3f 0 0 1) (1 / 2) (Point2f 0 0) Radiance
        RT_Transmission = Inl CheckFailed
   \<and> BxDF_PDF test_env (TagLayered test_layered) (Vector3f 0 0 1) (Vector3f 0 0 1) Radiance
        RT_Transmission = Inl CheckFailed"
proof -
  have r: "RT_Reflection \<noteq> RT_All" and t: "RT_Transmission \<noteq> RT_All" by simp_all
  show ?thesis
    using r t
      LayeredBxDF_requires_All [OF r, of test_env test_layered "Vector3f 0 0 1" "1 / 2" "Point2f 0 0"
        Radiance "Vector3f 0 0 1"]
      LayeredBxDF_requires_All [OF t, of test_env test_layered "Vector3f 0 0 1" "1 / 2" "Point2f 0 0"
        Radiance "Vector3f 0 0 1"]
    by simp
qed

subsection \<open>LayeredBxDF: Russian roulette\<close>

lemma sp_scale_sp_div_cancel: "v \<noteq> 0 \<Longrightarrow> sp_scale (sp_div s v) v = s"
  by (cases s) (simp add: sp_scale_def sp_div_def)

lemma LayeredBxDF_f_walk_pass:
  "LayeredBxDF_f_walk env L rng wi mode exitInterface nonExitInterface exitZ wis (Suc k) depth st =
     (if depth > 3 \<and> MaxComponentValue (fs_beta st) < 1 / 4
         \<and> draw env rng (fs_n st) < max 0 (1 - MaxComponentValue (fs_beta st))
      then st\<lparr>fs_n := fs_n st + 1\<rparr>
      else
        (case LayeredBxDF_f_after_roulette env L rng wi mode exitInterface nonExitInterface exitZ wis
                (if depth > 3 \<and> MaxComponentValue (fs_beta st) < 1 / 4
                 then st\<lparr>fs_beta := sp_div (fs_beta st)
                                           (1 - max 0 (1 - MaxComponentValue (fs_beta st))),
                         fs_n := fs_n st + 1\<rparr>
                 else st) of
           Exit s \<Rightarrow> s
         | Continue s \<Rightarrow>
             LayeredBxDF_f_walk env L rng wi mode exitInterface nonExitInterface exitZ wis k
               (depth + 1) s
         | Proceed s \<Rightarrow>
             LayeredBxDF_f_walk env L rng wi mode exitInterface nonExitInterface exitZ wis k
               (depth + 1) s))"
  by (auto simp: LayeredBxDF_f_step_def LayeredBxDF_f_roulette_def Let_def)

lemma LayeredBxDF_Sample_f_walk_pass:
  "LayeredBxDF_Sample_f_walk env L rng wo mode flipWi (Suc k) depth ss =
     (if depth > 3 \<and> MaxComponentValue (ss_f ss) / ss_pdf ss < 1 / 4
         \<and> draw env rng (ss_n ss) < max 0 (1 - MaxComponentValue (ss_f ss) / ss_pdf ss)
      then None
      else
        (case LayeredBxDF_Sample_f_after_roulette env L rng wo mode flipWi
                (if depth > 3 \<and> MaxComponentValue (ss_f ss) / ss_pdf ss < 1 / 4
                 then ss\<lparr>ss_pdf := ss_pdf ss
                                        * (1 - max 0 (1 - MaxComponentValue (ss_f ss) / ss_pdf ss)),
                         ss_n := ss_n ss + 1\<rparr>
                 else ss) of
           Exit r \<Rightarrow> r
         | Continue s \<Rightarrow> LayeredBxDF_Sample_f_walk env L rng wo mode flipWi k (depth + 1) s
         | Proceed s \<Rightarrow> LayeredBxDF_Sample_f_walk env L rng wo mode flipWi k (depth + 1) s))"
  by (auto simp: LayeredBxDF_Sample_f_step_def LayeredBxDF_Sample_f_roulette_def Let_def)


lemma LayeredBxDF_f_roulette_unbiased:
  assumes a: "depth > 3 \<and> MaxComponentValue (fs_beta st) < 1 / 4"
    and q: "max 0 (1 - MaxComponentValue (fs_beta st)) < 1"
    and r: "LayeredBxDF_f_roulette env rng depth st = Some st1"
  shows "sp_scale (fs_beta st1) (1 - max 0 (1 - MaxComponentValue (fs_beta st))) = fs_beta st"
proof -
  have nz: "1 - max 0 (1 - MaxComponentValue (fs_beta st)) \<noteq> 0"
    using q by simp
  have "fs_beta st1 = sp_div (fs_beta st) (1 - max 0 (1 - MaxComponentValue (fs_beta st)))"
    using a r by (auto simp: LayeredBxDF_f_roulette_def Let_def split: if_splits)
  then show ?thesis
    using sp_scale_sp_div_cancel [OF nz] by simp
qed

lemma LayeredBxDF_Sample_f_roulette_unbiased:
  assumes a: "depth > 3 \<and> MaxComponentValue (ss_f ss) / ss_pdf ss < 1 / 4"
    and q: "max 0 (1 - MaxComponentValue (ss_f ss) / ss_pdf ss) < 1"
    and p: "ss_pdf ss \<noteq> 0"
    and r: "LayeredBxDF_Sample_f_roulette env rng depth ss = Some ss1"
  shows "sp_scale (sp_div (ss_f ss1) (ss_pdf ss1))
           (1 - max 0 (1 - MaxComponentValue (ss_f ss) / ss_pdf ss))
         = sp_div (ss_f ss) (ss_pdf ss)"
proof -
  define c where "c = 1 - max 0 (1 - MaxComponentValue (ss_f ss) / ss_pdf ss)"
  have nz: "c \<noteq> 0"
    using q by (simp add: c_def)
  have "ss_f ss1 = ss_f ss" and "ss_pdf ss1 = ss_pdf ss * c"
    using a r by (auto simp: LayeredBxDF_Sample_f_roulette_def Let_def c_def split: if_splits)
  then show ?thesis
    using nz p unfolding c_def [symmetric]
    by (cases "ss_f ss") (simp add: sp_scale_def sp_div_def)
qed

text \<open>
  Claim C2. One pass of the walk of \<^verbatim>\<open>LayeredBxDF::f\<close>, and of \<^verbatim>\<open>LayeredBxDF::Sample_f\<close>,
  starts with Russian roulette, which acts only when \<open>depth > 3\<close> and the maximum
  component of the throughput (\<open>beta\<close>, or \<open>f / pdf\<close> in \<^verbatim>\<open>Sample_f\<close>) is below \<open>1 / 4\<close>.
  With \<open>q = max 0 (1 - maximum component)\<close>, a drawn number below \<open>q\<close> ends the walk (the
  \<^verbatim>\<open>break\<close> of \<^verbatim>\<open>f\<close>, the empty result of \<^verbatim>\<open>Sample_f\<close>); otherwise the rest of the pass
  runs on the state in which \<open>beta\<close> is divided by \<open>1 - q\<close> (in \<^verbatim>\<open>Sample_f\<close>, \<open>pdf\<close> is
  multiplied by \<open>1 - q\<close>) and the walk goes on from the state that the rest of the pass
  leaves. The walk survives exactly for the draws from \<open>q\<close> upwards: of the numbers of the
  unit interval that a draw can be (those not above \<^verbatim>\<open>OneMinusEpsilon\<close>), the roulette of
  the code lets through those of the interval from \<open>q\<close> to one, of length \<open>1 - q\<close>. For
  \<open>q < 1\<close> the adjustment is unbiased: \<open>1 - q\<close> times the throughput that the roulette
  hands on is the throughput before it.
\<close>

theorem LayeredBxDF_Russian_roulette:
  "LayeredBxDF_f_walk env L rng wi mode exitInterface nonExitInterface exitZ wis (Suc k) depth st =
     (if depth > 3 \<and> MaxComponentValue (fs_beta st) < 1 / 4
         \<and> draw env rng (fs_n st) < max 0 (1 - MaxComponentValue (fs_beta st))
      then st\<lparr>fs_n := fs_n st + 1\<rparr>
      else
        (case LayeredBxDF_f_after_roulette env L rng wi mode exitInterface nonExitInterface exitZ wis
                (if depth > 3 \<and> MaxComponentValue (fs_beta st) < 1 / 4
                 then st\<lparr>fs_beta := sp_div (fs_beta st)
                                           (1 - max 0 (1 - MaxComponentValue (fs_beta st))),
                         fs_n := fs_n st + 1\<rparr>
                 else st) of
           Exit s \<Rightarrow> s
         | Continue s \<Rightarrow>
             LayeredBxDF_f_walk env L rng wi mode exitInterface nonExitInterface exitZ wis k
               (depth + 1) s
         | Proceed s \<Rightarrow>
             LayeredBxDF_f_walk env L rng wi mode exitInterface nonExitInterface exitZ wis k
               (depth + 1) s))
   \<and> LayeredBxDF_Sample_f_walk env L rng wo mode flipWi (Suc k) depth ss =
     (if depth > 3 \<and> MaxComponentValue (ss_f ss) / ss_pdf ss < 1 / 4
         \<and> draw env rng (ss_n ss) < max 0 (1 - MaxComponentValue (ss_f ss) / ss_pdf ss)
      then None
      else
        (case LayeredBxDF_Sample_f_after_roulette env L rng wo mode flipWi
                (if depth > 3 \<and> MaxComponentValue (ss_f ss) / ss_pdf ss < 1 / 4
                 then ss\<lparr>ss_pdf := ss_pdf ss
                                        * (1 - max 0 (1 - MaxComponentValue (ss_f ss) / ss_pdf ss)),
                         ss_n := ss_n ss + 1\<rparr>
                 else ss) of
           Exit r \<Rightarrow> r
         | Continue s \<Rightarrow> LayeredBxDF_Sample_f_walk env L rng wo mode flipWi k (depth + 1) s
         | Proceed s \<Rightarrow> LayeredBxDF_Sample_f_walk env L rng wo mode flipWi k (depth + 1) s))
   \<and> (depth > 3 \<and> MaxComponentValue (fs_beta st) < 1 / 4 \<longrightarrow>
        (LayeredBxDF_f_roulette env rng depth st \<noteq> None)
          = (max 0 (1 - MaxComponentValue (fs_beta st)) \<le> draw env rng (fs_n st)))
   \<and> (depth > 3 \<and> MaxComponentValue (ss_f ss) / ss_pdf ss < 1 / 4 \<longrightarrow>
        (LayeredBxDF_Sample_f_roulette env rng depth ss \<noteq> None)
          = (max 0 (1 - MaxComponentValue (ss_f ss) / ss_pdf ss) \<le> draw env rng (ss_n ss)))
   \<and> (depth > 3 \<and> MaxComponentValue (fs_beta st) < 1 / 4 \<longrightarrow>
        {r. 0 \<le> r \<and> r < 1 \<and> r \<le> OneMinusEpsilon env
            \<and> LayeredBxDF_f_roulette env (\<lambda>n. r) depth st \<noteq> None}
          = {max 0 (1 - MaxComponentValue (fs_beta st)) ..< 1} \<inter> {.. OneMinusEpsilon env})
   \<and> (depth > 3 \<and> MaxComponentValue (fs_beta st) < 1 / 4
       \<and> max 0 (1 - MaxComponentValue (fs_beta st)) < 1
       \<and> LayeredBxDF_f_roulette env rng depth st = Some st1 \<longrightarrow>
        sp_scale (fs_beta st1) (1 - max 0 (1 - MaxComponentValue (fs_beta st))) = fs_beta st)
   \<and> (depth > 3 \<and> MaxComponentValue (ss_f ss) / ss_pdf ss < 1 / 4
       \<and> max 0 (1 - MaxComponentValue (ss_f ss) / ss_pdf ss) < 1 \<and> ss_pdf ss \<noteq> 0
       \<and> LayeredBxDF_Sample_f_roulette env rng depth ss = Some ss1 \<longrightarrow>
        sp_scale (sp_div (ss_f ss1) (ss_pdf ss1))
          (1 - max 0 (1 - MaxComponentValue (ss_f ss) / ss_pdf ss))
        = sp_div (ss_f ss) (ss_pdf ss))"
proof (intro conjI impI)
  show "LayeredBxDF_f_walk env L rng wi mode exitInterface nonExitInterface exitZ wis (Suc k) depth st =
     (if depth > 3 \<and> MaxComponentValue (fs_beta st) < 1 / 4
         \<and> draw env rng (fs_n st) < max 0 (1 - MaxComponentValue (fs_beta st))
      then st\<lparr>fs_n := fs_n st + 1\<rparr>
      else
        (case LayeredBxDF_f_after_roulette env L rng wi mode exitInterface nonExitInterface exitZ wis
                (if depth > 3 \<and> MaxComponentValue (fs_beta st) < 1 / 4
                 then st\<lparr>fs_beta := sp_div (fs_beta st)
                                           (1 - max 0 (1 - MaxComponentValue (fs_beta st))),
                         fs_n := fs_n st + 1\<rparr>
                 else st) of
           Exit s \<Rightarrow> s
         | Continue s \<Rightarrow>
             LayeredBxDF_f_walk env L rng wi mode exitInterface nonExitInterface exitZ wis k
               (depth + 1) s
         | Proceed s \<Rightarrow>
             LayeredBxDF_f_walk env L rng wi mode exitInterface nonExitInterface exitZ wis k
               (depth + 1) s))"
    by (rule LayeredBxDF_f_walk_pass)
next
  show "LayeredBxDF_Sample_f_walk env L rng wo mode flipWi (Suc k) depth ss =
     (if depth > 3 \<and> MaxComponentValue (ss_f ss) / ss_pdf ss < 1 / 4
         \<and> draw env rng (ss_n ss) < max 0 (1 - MaxComponentValue (ss_f ss) / ss_pdf ss)
      then None
      else
        (case LayeredBxDF_Sample_f_after_roulette env L rng wo mode flipWi
                (if depth > 3 \<and> MaxComponentValue (ss_f ss) / ss_pdf ss < 1 / 4
                 then ss\<lparr>ss_pdf := ss_pdf ss
                                        * (1 - max 0 (1 - MaxComponentValue (ss_f ss) / ss_pdf ss)),
                         ss_n := ss_n ss + 1\<rparr>
                 else ss) of
           Exit r \<Rightarrow> r
         | Continue s \<Rightarrow> LayeredBxDF_Sample_f_walk env L rng wo mode flipWi k (depth + 1) s
         | Proceed s \<Rightarrow> LayeredBxDF_Sample_f_walk env L rng wo mode flipWi k (depth + 1) s))"
    by (rule LayeredBxDF_Sample_f_walk_pass)
next
  assume "depth > 3 \<and> MaxComponentValue (fs_beta st) < 1 / 4"
  then show "(LayeredBxDF_f_roulette env rng depth st \<noteq> None)
          = (max 0 (1 - MaxComponentValue (fs_beta st)) \<le> draw env rng (fs_n st))"
    by (auto simp: LayeredBxDF_f_roulette_def Let_def)
next
  assume "depth > 3 \<and> MaxComponentValue (ss_f ss) / ss_pdf ss < 1 / 4"
  then show "(LayeredBxDF_Sample_f_roulette env rng depth ss \<noteq> None)
          = (max 0 (1 - MaxComponentValue (ss_f ss) / ss_pdf ss) \<le> draw env rng (ss_n ss))"
    by (auto simp: LayeredBxDF_Sample_f_roulette_def Let_def)
next
  assume "depth > 3 \<and> MaxComponentValue (fs_beta st) < 1 / 4"
  then show "{r. 0 \<le> r \<and> r < 1 \<and> r \<le> OneMinusEpsilon env
            \<and> LayeredBxDF_f_roulette env (\<lambda>n. r) depth st \<noteq> None}
          = {max 0 (1 - MaxComponentValue (fs_beta st)) ..< 1} \<inter> {.. OneMinusEpsilon env}"
    by (auto simp: LayeredBxDF_f_roulette_def draw_def Let_def)
next
  assume "depth > 3 \<and> MaxComponentValue (fs_beta st) < 1 / 4
       \<and> max 0 (1 - MaxComponentValue (fs_beta st)) < 1
       \<and> LayeredBxDF_f_roulette env rng depth st = Some st1"
  then show "sp_scale (fs_beta st1) (1 - max 0 (1 - MaxComponentValue (fs_beta st))) = fs_beta st"
    using LayeredBxDF_f_roulette_unbiased by blast
next
  assume "depth > 3 \<and> MaxComponentValue (ss_f ss) / ss_pdf ss < 1 / 4
       \<and> max 0 (1 - MaxComponentValue (ss_f ss) / ss_pdf ss) < 1 \<and> ss_pdf ss \<noteq> 0
       \<and> LayeredBxDF_Sample_f_roulette env rng depth ss = Some ss1"
  then show "sp_scale (sp_div (ss_f ss1) (ss_pdf ss1))
          (1 - max 0 (1 - MaxComponentValue (ss_f ss) / ss_pdf ss))
        = sp_div (ss_f ss) (ss_pdf ss)"
    using LayeredBxDF_Sample_f_roulette_unbiased by blast
qed

lemma test_thin_reflect_below:
  "ThinDielectricBxDF_Sample_f test_env \<lparr>thin_eta = 3 / 2\<rparr> (Vector3f 0 0 (- 1)) (9 / 10) u mode
     RT_Reflection
   = Some (mk_BSDFSample (sp_const (1 / 13)) (Vector3f 0 0 (- 1)) 1 SpecularReflection)"
  by (simp add: ThinDielectricBxDF_Sample_f_def test_env_def Let_def Sqr_def AbsCosTheta_def)

lemma test_thin_transmit_below:
  "ThinDielectricBxDF_Sample_f test_env \<lparr>thin_eta = 3 / 2\<rparr> (Vector3f 0 0 (- 1)) (9 / 10) u mode
     RT_All
   = Some (mk_BSDFSample (sp_const (12 / 13)) (Vector3f 0 0 1) (12 / 13) SpecularTransmission)"
  by (simp add: ThinDielectricBxDF_Sample_f_def test_env_def Let_def Sqr_def AbsCosTheta_def
      vneg_def)

lemma test_draw_const: "draw test_env (\<lambda>n. 9 / 10) n = 9 / 10" "draw test_env (\<lambda>n. 1 / 2) n = 1 / 2"
  by (simp_all add: draw_def test_env_def)

lemma test_Tr: "Tr test_env (1 / 100) w = 1 / 2"
  by (simp add: Tr_def test_env_def)

lemma test_f_after_roulette:
  "LayeredBxDF_f_after_roulette test_env test_layered (\<lambda>n. 9 / 10) (Vector3f 0 0 1) Radiance
     (lay_top test_layered) (lay_bottom test_layered) (1 / 100) empty_BSDFSample
     (test_f_state\<lparr>fs_beta := sp_const 1, fs_n := Suc 0\<rparr>)
   = Continue \<lparr>fs_f = sp_const 0, fs_beta = sp_const (1 / 26), fs_z = 1 / 100,
               fs_w = Vector3f 0 0 (- 1), fs_n = 4\<rparr>"
  by (simp add: LayeredBxDF_f_after_roulette_def LayeredBxDF_f_medium_def
      LayeredBxDF_f_interface_def test_layered_fields test_f_state_def test_draw_const test_Tr
      ThinDielectricBxDF_lobe_def test_thin_reflect_below vneg_def sample_unusable_def
      mk_BSDFSample_def sp_const_def sp_scale_def sp_div_def sp_mul_def AbsCosTheta_def Let_def)

lemma test_Sample_f_after_roulette:
  "LayeredBxDF_Sample_f_after_roulette test_env test_layered (\<lambda>n. 9 / 10) (Vector3f 0 0 1) Radiance
     False (test_s_state\<lparr>ss_pdf := 1 / 8, ss_n := Suc 0\<rparr>)
   = Exit (Some \<lparr>bs_f = sp_const (3 / 52), bs_wi = Vector3f 0 0 1, bs_pdf = 3 / 26,
                  bs_flags = {Reflection} \<union> {Specular}, bs_eta = 1,
                  bs_pdfIsProportional = True\<rparr>)"
  by (simp add: LayeredBxDF_Sample_f_after_roulette_def LayeredBxDF_Sample_f_medium_def
      LayeredBxDF_Sample_f_interface_def test_layered_fields test_s_state_def test_draw_const
      test_Tr ThinDielectricBxDF_lobe_def test_thin_transmit_below vneg_def sample_unusable_def
      mk_BSDFSample_def sp_const_def sp_scale_def sp_mul_def bs_IsTransmission_def
      bs_IsSpecular_def IsTransmissive_def IsSpecular_def SpecularTransmission_def
      SameHemisphere_def insert_commute Let_def)

theorem LayeredBxDF_Russian_roulette_witness:
  "LayeredBxDF_f_walk test_env test_layered (\<lambda>n. 9 / 10) (Vector3f 0 0 1) Radiance
        (lay_top test_layered) (lay_bottom test_layered) (1 / 100) empty_BSDFSample (Suc 0) 4
        test_f_state
     = \<lparr>fs_f = sp_const 0, fs_beta = sp_const (1 / 26), fs_z = 1 / 100,
        fs_w = Vector3f 0 0 (- 1), fs_n = 4\<rparr>
   \<and> LayeredBxDF_Sample_f_walk test_env test_layered (\<lambda>n. 9 / 10) (Vector3f 0 0 1) Radiance False
        (Suc 0) 4 test_s_state
     = Some \<lparr>bs_f = sp_const (3 / 52), bs_wi = Vector3f 0 0 1, bs_pdf = 3 / 26,
             bs_flags = {Reflection} \<union> {Specular}, bs_eta = 1, bs_pdfIsProportional = True\<rparr>
   \<and> LayeredBxDF_f_walk test_env test_layered (\<lambda>n. 1 / 2) (Vector3f 0 0 1) Radiance
        (lay_top test_layered) (lay_bottom test_layered) (1 / 100) empty_BSDFSample (Suc 0) 4
        test_f_state
     = test_f_state\<lparr>fs_n := 1\<rparr>
   \<and> LayeredBxDF_Sample_f_walk test_env test_layered (\<lambda>n. 1 / 2) (Vector3f 0 0 1) Radiance False
        (Suc 0) 4 test_s_state = None
   \<and> {r. 0 \<le> r \<and> r < 1 \<and> r \<le> OneMinusEpsilon test_env
          \<and> LayeredBxDF_f_roulette test_env (\<lambda>n. r) 4 test_f_state \<noteq> None}
     = {7 / 8 ..< 1} \<inter> {.. OneMinusEpsilon test_env}
   \<and> LayeredBxDF_f_roulette test_env (\<lambda>n. 9 / 10) 4 test_f_state
     = Some (test_f_state\<lparr>fs_beta := sp_const 1, fs_n := 1\<rparr>)
   \<and> LayeredBxDF_Sample_f_roulette test_env (\<lambda>n. 9 / 10) 4 test_s_state
     = Some (test_s_state\<lparr>ss_pdf := 1 / 8, ss_n := 1\<rparr>)
   \<and> sp_scale (fs_beta (test_f_state\<lparr>fs_beta := sp_const 1, fs_n := 1\<rparr>)) (1 - 7 / 8)
     = fs_beta test_f_state
   \<and> sp_scale (sp_div (ss_f (test_s_state\<lparr>ss_pdf := 1 / 8, ss_n := 1\<rparr>))
                 (ss_pdf (test_s_state\<lparr>ss_pdf := 1 / 8, ss_n := 1\<rparr>))) (1 - 7 / 8)
     = sp_div (ss_f test_s_state) (ss_pdf test_s_state)"
proof -
  have m: "MaxComponentValue (sp_const (1 / 8)) = 1 / 8"
    by (simp add: sp_const_def)
  have mf: "MaxComponentValue (fs_beta test_f_state) = 1 / 8"
    and ms: "MaxComponentValue (ss_f test_s_state) / ss_pdf test_s_state = 1 / 8"
    and n0: "fs_n test_f_state = 0" "ss_n test_s_state = 0"
    and p: "ss_pdf test_s_state \<noteq> 0"
    by (simp_all add: test_f_state_def test_s_state_def m)
  have div: "sp_div (fs_beta test_f_state) (1 / 8) = sp_const 1"
    by (simp add: test_f_state_def sp_const_def sp_div_def)
  have mul: "ss_pdf test_s_state * (1 / 8) = 1 / 8" "ss_pdf test_s_state / 8 = 1 / 8"
    by (simp_all add: test_s_state_def)
  have rf: "LayeredBxDF_f_roulette test_env (\<lambda>n. 9 / 10) 4 test_f_state
     = Some (test_f_state\<lparr>fs_beta := sp_const 1, fs_n := 1\<rparr>)"
    by (simp add: LayeredBxDF_f_roulette_def mf n0 test_draw_const div Let_def)
  have rs: "LayeredBxDF_Sample_f_roulette test_env (\<lambda>n. 9 / 10) 4 test_s_state
     = Some (test_s_state\<lparr>ss_pdf := 1 / 8, ss_n := 1\<rparr>)"
    by (simp add: LayeredBxDF_Sample_f_roulette_def ms n0 test_draw_const mul Let_def)
  note live = LayeredBxDF_Russian_roulette [of test_env test_layered "\<lambda>n. 9 / 10" "Vector3f 0 0 1"
      Radiance "lay_top test_layered" "lay_bottom test_layered" "1 / 100" empty_BSDFSample 0 4
      test_f_state "Vector3f 0 0 1" False test_s_state
      "test_f_state\<lparr>fs_beta := sp_const 1, fs_n := 1\<rparr>" "test_s_state\<lparr>ss_pdf := 1 / 8, ss_n := 1\<rparr>"]
  note dead = LayeredBxDF_Russian_roulette [of test_env test_layered "\<lambda>n. 1 / 2" "Vector3f 0 0 1"
      Radiance "lay_top test_layered" "lay_bottom test_layered" "1 / 100" empty_BSDFSample 0 4
      test_f_state "Vector3f 0 0 1" False test_s_state]
  have w1: "LayeredBxDF_f_walk test_env test_layered (\<lambda>n. 9 / 10) (Vector3f 0 0 1) Radiance
        (lay_top test_layered) (lay_bottom test_layered) (1 / 100) empty_BSDFSample (Suc 0) 4
        test_f_state
     = \<lparr>fs_f = sp_const 0, fs_beta = sp_const (1 / 26), fs_z = 1 / 100,
        fs_w = Vector3f 0 0 (- 1), fs_n = 4\<rparr>"
    by (subst live [THEN conjunct1])
      (simp add: mf n0 test_draw_const div test_f_after_roulette)
  have w2: "LayeredBxDF_Sample_f_walk test_env test_layered (\<lambda>n. 9 / 10) (Vector3f 0 0 1) Radiance False
        (Suc 0) 4 test_s_state
     = Some \<lparr>bs_f = sp_const (3 / 52), bs_wi = Vector3f 0 0 1, bs_pdf = 3 / 26,
             bs_flags = {Reflection} \<union> {Specular}, bs_eta = 1, bs_pdfIsProportional = True\<rparr>"
    by (subst live [THEN conjunct2, THEN conjunct1])
      (simp add: ms n0 test_draw_const mul test_Sample_f_after_roulette)
  have w3: "LayeredBxDF_f_walk test_env test_layered (\<lambda>n. 1 / 2) (Vector3f 0 0 1) Radiance
        (lay_top test_layered) (lay_bottom test_layered) (1 / 100) empty_BSDFSample (Suc 0) 4
        test_f_state
     = test_f_state\<lparr>fs_n := 1\<rparr>"
    by (subst dead [THEN conjunct1]) (simp add: mf n0 test_draw_const)
  have w4: "LayeredBxDF_Sample_f_walk test_env test_layered (\<lambda>n. 1 / 2) (Vector3f 0 0 1) Radiance False
        (Suc 0) 4 test_s_state = None"
    by (subst dead [THEN conjunct2, THEN conjunct1]) (simp add: ms n0 test_draw_const)
  have u1: "sp_scale (fs_beta (test_f_state\<lparr>fs_beta := sp_const 1, fs_n := 1\<rparr>)) (1 - 7 / 8)
     = fs_beta test_f_state"
    using live [THEN conjunct2, THEN conjunct2, THEN conjunct2, THEN conjunct2, THEN conjunct2,
        THEN conjunct1] rf
    by (simp add: mf)
  have u2: "sp_scale (sp_div (ss_f (test_s_state\<lparr>ss_pdf := 1 / 8, ss_n := 1\<rparr>))
                 (ss_pdf (test_s_state\<lparr>ss_pdf := 1 / 8, ss_n := 1\<rparr>))) (1 - 7 / 8)
     = sp_div (ss_f test_s_state) (ss_pdf test_s_state)"
    using live [THEN conjunct2, THEN conjunct2, THEN conjunct2, THEN conjunct2, THEN conjunct2,
        THEN conjunct2] rs p
    by (simp add: ms)
  have iv: "{r. 0 \<le> r \<and> r < 1 \<and> r \<le> OneMinusEpsilon test_env
          \<and> LayeredBxDF_f_roulette test_env (\<lambda>n. r) 4 test_f_state \<noteq> None}
     = {7 / 8 ..< 1} \<inter> {.. OneMinusEpsilon test_env}"
    using live [THEN conjunct2, THEN conjunct2, THEN conjunct2, THEN conjunct2, THEN conjunct1]
    by (simp add: mf)
  show ?thesis
    using w1 w2 w3 w4 iv rf rs u1 u2 by blast
qed

subsection \<open>Sample_f against PDF\<close>

lemma DiffuseBxDF_consistent:
  assumes S: "DiffuseBxDF_Sample_f env b wo uc u mode fl = Some s"
    and z: "vec_z wo \<noteq> 0" and up: "upper_hemisphere_sampler env"
  shows "DiffuseBxDF_PDF b wo (bs_wi s) mode fl = bs_pdf s"
proof -
  have r: "has_Reflection fl"
    using S by (auto simp: DiffuseBxDF_Sample_f_def split: if_splits)
  define wi0 where "wi0 = SampleCosineHemisphere env u"
  have z0: "0 \<le> vec_z wi0"
    using up by (simp add: upper_hemisphere_sampler_def wi0_def)
  have s: "s = mk_BSDFSample (sp_scale (diffuse_R b) InvPi)
                (if vec_z wo < 0 then flip_z wi0 else wi0)
                (CosineHemispherePDF (AbsCosTheta (if vec_z wo < 0 then flip_z wi0 else wi0)))
                DiffuseReflection"
    using S r by (auto simp: DiffuseBxDF_Sample_f_def Let_def wi0_def)
  show ?thesis
  proof (cases "vec_z wi0 = 0")
    case True
    then show ?thesis
      using r by (simp add: s mk_BSDFSample_def DiffuseBxDF_PDF_def SameHemisphere_def flip_z_def
          CosineHemispherePDF_def AbsCosTheta_def)
  next
    case False
    then have pos: "0 < vec_z wi0" using z0 by simp
    have "SameHemisphere wo (if vec_z wo < 0 then flip_z wi0 else wi0)"
      using pos z by (auto simp: SameHemisphere_def flip_z_def mult_pos_pos mult_neg_neg mult_neg_pos
            mult_pos_neg)
    then show ?thesis
      using r by (simp add: s mk_BSDFSample_def DiffuseBxDF_PDF_def)
  qed
qed

lemma DiffuseTransmissionBxDF_consistent:
  assumes S: "DiffuseTransmissionBxDF_Sample_f env b wo uc u mode fl = Some s"
    and z: "vec_z wo \<noteq> 0" and up: "upper_hemisphere_sampler env"
  shows "DiffuseTransmissionBxDF_PDF b wo (bs_wi s) mode fl = bs_pdf s"
proof -
  define pr where "pr = (if has_Reflection fl then MaxComponentValue (dt_R b) else 0)"
  define pt where "pt = (if has_Transmission fl then MaxComponentValue (dt_T b) else 0)"
  define wi0 where "wi0 = SampleCosineHemisphere env u"
  have z0: "0 \<le> vec_z wi0"
    using up by (simp add: upper_hemisphere_sampler_def wi0_def)
  have nz: "\<not> (pr = 0 \<and> pt = 0)"
    using S by (auto simp: DiffuseTransmissionBxDF_Sample_f_def Let_def pr_def pt_def
        split: if_splits)
  have P: "\<And>wi. DiffuseTransmissionBxDF_PDF b wo wi mode fl =
            (if SameHemisphere wo wi then pr / (pr + pt) * CosineHemispherePDF (AbsCosTheta wi)
             else pt / (pr + pt) * CosineHemispherePDF (AbsCosTheta wi))"
    using nz by (auto simp: DiffuseTransmissionBxDF_PDF_def Let_def pr_def pt_def)
  show ?thesis
  proof (cases "uc < pr / (pr + pt)")
    case True
    then have s: "bs_wi s = (if vec_z wo < 0 then flip_z wi0 else wi0)"
      "bs_pdf s = CosineHemispherePDF (AbsCosTheta (if vec_z wo < 0 then flip_z wi0 else wi0))
                    * pr / (pr + pt)"
      using S nz
      by (auto simp: DiffuseTransmissionBxDF_Sample_f_def Let_def pr_def pt_def wi0_def
          mk_BSDFSample_def split: if_splits)
    show ?thesis
    proof (cases "vec_z wi0 = 0")
      case True
      then show ?thesis
        by (simp add: s P flip_z_def CosineHemispherePDF_def AbsCosTheta_def)
    next
      case False
      then have pos: "0 < vec_z wi0" using z0 by simp
      have "SameHemisphere wo (if vec_z wo < 0 then flip_z wi0 else wi0)"
        using pos z by (auto simp: SameHemisphere_def flip_z_def mult_pos_pos mult_neg_neg mult_neg_pos
            mult_pos_neg)
      then show ?thesis
        by (simp add: s P)
    qed
  next
    case False
    then have s: "bs_wi s = (if vec_z wo > 0 then flip_z wi0 else wi0)"
      "bs_pdf s = CosineHemispherePDF (AbsCosTheta (if vec_z wo > 0 then flip_z wi0 else wi0))
                    * pt / (pr + pt)"
      using S nz
      by (auto simp: DiffuseTransmissionBxDF_Sample_f_def Let_def pr_def pt_def wi0_def
          mk_BSDFSample_def split: if_splits)
    have "\<not> SameHemisphere wo (if vec_z wo > 0 then flip_z wi0 else wi0)"
      using z0 z
      by (auto simp: SameHemisphere_def flip_z_def not_less mult_nonneg_nonpos mult_nonpos_nonneg)
    then show ?thesis
      by (simp add: s P)
  qed
qed

lemma vadd_Reflect: "vadd wo (Reflect wo wm) = vscale (2 * Dot wo wm) wm"
  by (simp add: vadd_def Reflect_def vneg_def vscale_def)

lemma Length_vscale_unit:
  assumes "Length v = 1"
  shows "Length (vscale c v) = \<bar>c\<bar>"
proof -
  have "LengthSquared v = 1"
    using assms by (simp add: Length_def)
  then have "LengthSquared (vscale c v) = c * c"
    by (simp add: LengthSquared_def vscale_def Sqr_def algebra_simps)
       (metis distrib_left mult.right_neutral)
  then show ?thesis
    by (simp add: Length_def)
qed

lemma FaceForward_Normalize_vscale:
  assumes len: "Length v = 1" and up: "0 < vec_z v" and c: "c \<noteq> 0"
  shows "FaceForward (Normalize (vscale c v)) (Vector3f 0 0 1) = v"
proof -
  have N: "Normalize (vscale c v)
             = Vector3f (c * vec_x v / \<bar>c\<bar>) (c * vec_y v / \<bar>c\<bar>) (c * vec_z v / \<bar>c\<bar>)"
    unfolding Normalize_def Length_vscale_unit [OF len] by (simp add: vscale_def)
  show ?thesis
  proof (cases "0 < c")
    case True
    then have "Normalize (vscale c v) = v"
      by (simp add: N)
    then show ?thesis
      using up by (simp add: FaceForward_def Dot_def)
  next
    case False
    then have neg: "c < 0" using c by simp
    then have "Normalize (vscale c v) = vneg v"
      by (simp add: N vneg_def)
    then show ?thesis
      using up by (simp add: FaceForward_def Dot_def vneg_def)
  qed
qed

lemma SameHemisphere_Reflect_Dot:
  assumes "SameHemisphere wo (Reflect wo wm)"
  shows "Dot wo wm \<noteq> 0"
proof
  assume "Dot wo wm = 0"
  then have "vec_z (Reflect wo wm) = - vec_z wo"
    by (simp add: Reflect_def vadd_def vneg_def vscale_def)
  then have "vec_z wo * vec_z (Reflect wo wm) \<le> 0"
    by (simp add: mult_nonneg_nonpos2 zero_le_mult_iff)
  then show False
    using assms by (simp add: SameHemisphere_def)
qed

lemma ConductorBxDF_consistent:
  assumes S: "ConductorBxDF_Sample_f env b wo uc u mode fl = Some s"
    and ns: "\<not> IsSpecular (bs_flags s)"
    and mf: "unit_upward_normals (cond_mfDistrib b)"
  shows "ConductorBxDF_PDF b wo (bs_wi s) mode fl = bs_pdf s"
proof -
  define wm where "wm = mf_Sample_wm (cond_mfDistrib b) wo u"
  have r: "has_Reflection fl"
    using S by (auto simp: ConductorBxDF_Sample_f_def split: if_splits)
  have rough: "\<not> mf_EffectivelySmooth (cond_mfDistrib b)"
    using S ns r
    by (auto simp: ConductorBxDF_Sample_f_def Let_def mk_BSDFSample_def IsSpecular_def
        SpecularReflection_def split: if_splits)
  have same: "SameHemisphere wo (Reflect wo wm)"
    using S r rough by (auto simp: ConductorBxDF_Sample_f_def Let_def wm_def split: if_splits)
  have s: "bs_wi s = Reflect wo wm"
    "bs_pdf s = mf_PDF (cond_mfDistrib b) wo wm / (4 * AbsDot wo wm)"
    using S r rough
    by (auto simp: ConductorBxDF_Sample_f_def Let_def wm_def mk_BSDFSample_def split: if_splits)
  have len: "Length wm = 1" and up: "0 < vec_z wm"
    using mf by (simp_all add: unit_upward_normals_def wm_def)
  have c: "2 * Dot wo wm \<noteq> 0"
    using SameHemisphere_Reflect_Dot [OF same] by simp
  have ls: "LengthSquared (vscale (2 * Dot wo wm) wm) \<noteq> 0"
  proof
    assume "LengthSquared (vscale (2 * Dot wo wm) wm) = 0"
    then have "Length (vscale (2 * Dot wo wm) wm) = 0"
      by (simp add: Length_def)
    then show False
      using c by (simp add: Length_vscale_unit [OF len])
  qed
  show ?thesis
    using r rough same ls
    by (simp add: ConductorBxDF_PDF_def Let_def s vadd_Reflect
        FaceForward_Normalize_vscale [OF len up c])
qed

lemma NormalizedFresnelBxDF_consistent:
  "NormalizedFresnelBxDF_PDF b wo (bs_wi (NormalizedFresnelBxDF_Sample_f env b wo uc u mode fl)) mode fl
     = bs_pdf (NormalizedFresnelBxDF_Sample_f env b wo uc u mode fl)"
  by (simp add: NormalizedFresnelBxDF_Sample_f_def NormalizedFresnelBxDF_PDF_def Let_def
      mk_BSDFSample_def empty_BSDFSample_def)

lemma ThinDielectricBxDF_specular:
  assumes "ThinDielectricBxDF_Sample_f env b wo uc u mode fl = Some s"
  shows "IsSpecular (bs_flags s)"
  using assms
  by (auto simp: ThinDielectricBxDF_Sample_f_def Let_def mk_BSDFSample_def IsSpecular_def
      SpecularReflection_def SpecularTransmission_def split: if_splits)

lemma DisneyBxDF_consistent:
  assumes S: "DisneyBxDF_Sample_f env d wo uc u mode fl = Some s"
  shows "DisneyBxDF_PDF d wo (bs_wi s) mode fl = bs_pdf s"
proof (cases "dis_twoSided d \<and> vec_z wo < 0")
  case True
  then obtain wi flag where
    s: "s = mk_BSDFSample (BRDF_F env d (vneg wo) wi) (vneg wi) (BRDF_PDF d (vneg wo) wi) flag"
    using S by (auto simp: DisneyBxDF_Sample_f_def Let_def split: option.splits)
  have "BRDF_PDF d wo (vneg wi) = BRDF_PDF d (vneg wo) wi"
    using True BRDF_PDF_flip [of d wo "vneg wi"] by (simp add: vneg_vneg)
  then show ?thesis
    by (simp add: s mk_BSDFSample_def DisneyBxDF_PDF_def)
next
  case False
  then obtain wi flag where
    s: "s = mk_BSDFSample (BRDF_F env d wo wi) wi (BRDF_PDF d wo wi) flag"
    using S by (auto simp: DisneyBxDF_Sample_f_def Let_def split: option.splits)
  show ?thesis
    by (simp add: s mk_BSDFSample_def DisneyBxDF_PDF_def)
qed

lemma LayeredBxDF_Sample_f_step_proportional:
  assumes "LayeredBxDF_Sample_f_step env L rng wo mode flipWi depth st = Exit (Some s)"
  shows "bs_pdfIsProportional s"
  using assms
  by (auto simp: LayeredBxDF_Sample_f_step_def LayeredBxDF_Sample_f_after_roulette_def
      LayeredBxDF_Sample_f_medium_def LayeredBxDF_Sample_f_interface_def Let_def
      split: option.splits if_splits flow.splits)

lemma LayeredBxDF_Sample_f_walk_proportional:
  "LayeredBxDF_Sample_f_walk env L rng wo mode flipWi k depth st = Some s \<Longrightarrow> bs_pdfIsProportional s"
proof (induction k arbitrary: depth st)
  case 0
  then show ?case by simp
next
  case (Suc k)
  show ?case
  proof (cases "LayeredBxDF_Sample_f_step env L rng wo mode flipWi depth st")
    case (Exit r)
    then have "r = Some s" using Suc.prems by simp
    then show ?thesis
      using Exit LayeredBxDF_Sample_f_step_proportional by blast
  next
    case (Continue st1)
    then show ?thesis using Suc by simp
  next
    case (Proceed st1)
    then show ?thesis using Suc by simp
  qed
qed

lemma LayeredBxDF_Sample_f_proportional:
  assumes "LayeredBxDF_Sample_f env L wo uc u mode fl = Inr (Some s)"
  shows "bs_pdfIsProportional s"
proof -
  have "LayeredBxDF_Sample_f_body env L wo uc u mode = Some s"
    using assms by (auto simp: LayeredBxDF_Sample_f_def split: if_splits)
  then show ?thesis
    by (auto simp: LayeredBxDF_Sample_f_body_def Let_def
        split: option.splits if_splits dest: LayeredBxDF_Sample_f_walk_proportional)
qed

text \<open>
  Claim C6 as the code has it. For every lobe of the facade and every input with
  \<open>wo\<close> off the horizon (\<open>wo.z \<noteq> 0\<close>) for which \<^verbatim>\<open>Sample_f\<close> returns a sample that is
  neither flagged proportional nor flagged specular, \<^verbatim>\<open>PDF(wo, sample.wi)\<close> under the same
  mode and flags equals the density of the sample. The collaborators are asked that a
  cosine-weighted sample lies in the upper hemisphere and that a sampled microfacet
  normal of a conductor has length one and points upwards.
\<close>

theorem Sample_f_PDF_consistent:
  assumes S: "BxDF_Sample_f env b wo uc u mode fl = Inr (Some s)"
    and np: "\<not> bs_pdfIsProportional s"
    and ns: "\<not> IsSpecular (bs_flags s)"
    and z: "vec_z wo \<noteq> 0"
    and up: "upper_hemisphere_sampler env"
    and mf: "BxDF_normals_ok b"
  shows "BxDF_PDF env b wo (bs_wi s) mode fl = Inr (bs_pdf s)"
proof (cases b)
  case (TagDiffuse x)
  then show ?thesis
    using S DiffuseBxDF_consistent [OF _ z up] by simp
next
  case (TagDiffuseTransmission x)
  then show ?thesis
    using S DiffuseTransmissionBxDF_consistent [OF _ z up] by simp
next
  case (TagThinDielectric x)
  then show ?thesis
    using S ns by (auto dest: ThinDielectricBxDF_specular)
next
  case (TagConductor x)
  then show ?thesis
    using S mf ConductorBxDF_consistent [OF _ ns] by simp
next
  case (TagNormalizedFresnel x)
  then show ?thesis
    using S NormalizedFresnelBxDF_consistent [of x wo env uc u mode fl] by auto
next
  case (TagDisney x)
  then show ?thesis
    using S DisneyBxDF_consistent by simp
next
  case (TagLayered x)
  then show ?thesis
    using S np by (auto dest: LayeredBxDF_Sample_f_proportional)
qed


theorem Sample_f_PDF_consistent_witness:
  "BxDF_Sample_f test_env (TagConductor \<lparr>cond_mfDistrib = test_mf, cond_eta = sp_const 1, cond_k = sp_const 2\<rparr>)
      (Vector3f 0 (3 / 5) (4 / 5)) (1 / 2) (Point2f (1 / 2) (1 / 2)) Radiance RT_All
     = Inr (Some (mk_BSDFSample (sp_const (25 / 128)) (Vector3f 0 (- (3 / 5)) (4 / 5)) (5 / 16)
                    GlossyReflection))
   \<and> \<not> bs_pdfIsProportional (mk_BSDFSample (sp_const (25 / 128)) (Vector3f 0 (- (3 / 5)) (4 / 5))
                                  (5 / 16) GlossyReflection)
   \<and> \<not> IsSpecular (bs_flags (mk_BSDFSample (sp_const (25 / 128)) (Vector3f 0 (- (3 / 5)) (4 / 5))
                                  (5 / 16) GlossyReflection))
   \<and> vec_z (Vector3f 0 (3 / 5) (4 / 5)) \<noteq> 0
   \<and> upper_hemisphere_sampler test_env
   \<and> BxDF_normals_ok (TagConductor \<lparr>cond_mfDistrib = test_mf, cond_eta = sp_const 1, cond_k = sp_const 2\<rparr>)
   \<and> BxDF_PDF test_env (TagConductor \<lparr>cond_mfDistrib = test_mf, cond_eta = sp_const 1, cond_k = sp_const 2\<rparr>)
        (Vector3f 0 (3 / 5) (4 / 5)) (Vector3f 0 (- (3 / 5)) (4 / 5)) Radiance RT_All
     = Inr (5 / 16)"
proof -
  let ?b = "TagConductor \<lparr>cond_mfDistrib = test_mf, cond_eta = sp_const 1, cond_k = sp_const 2\<rparr>"
  let ?s = "mk_BSDFSample (sp_const (25 / 128)) (Vector3f 0 (- (3 / 5)) (4 / 5)) (5 / 16)
              GlossyReflection"
  have S: "BxDF_Sample_f test_env ?b (Vector3f 0 (3 / 5) (4 / 5)) (1 / 2) (Point2f (1 / 2) (1 / 2))
             Radiance RT_All = Inr (Some ?s)"
    by (simp add: ConductorBxDF_Sample_f_def test_mf_def test_env_def Reflect_def Dot_def AbsDot_def
        vadd_def vneg_def vscale_def SameHemisphere_def AbsCosTheta_def sp_const_def sp_scale_def
        sp_div_def Let_def)
  have np: "\<not> bs_pdfIsProportional ?s"
    by (simp add: mk_BSDFSample_def)
  have ns: "\<not> IsSpecular (bs_flags ?s)"
    by (simp add: mk_BSDFSample_def IsSpecular_def GlossyReflection_def)
  have z: "vec_z (Vector3f 0 (3 / 5) (4 / 5)) \<noteq> 0"
    by simp
  have up: "upper_hemisphere_sampler test_env"
    by (simp add: upper_hemisphere_sampler_def test_env_def)
  have mf: "BxDF_normals_ok ?b"
    by (simp add: unit_upward_normals_def test_mf_def Length_def LengthSquared_def Sqr_def)
  show ?thesis
    using S np ns z up mf Sample_f_PDF_consistent [OF S np ns z up mf]
    by (simp add: mk_BSDFSample_def)
qed

text \<open>
  Claim C6 as the spec states it fails in two ways. A thin dielectric returns a specular
  sample whose density is the probability of its branch (here \<open>12 / 13\<close>, not flagged
  proportional) while its \<^verbatim>\<open>PDF\<close> is zero for every pair of directions. A diffuse lobe
  asked at a direction \<open>wo\<close> on the horizon returns a sample of density \<open>1 / \<pi>\<close> while
  its \<^verbatim>\<open>PDF\<close> is zero, \<open>wo\<close> lying in no hemisphere.
\<close>

theorem Sample_f_PDF_consistent_counterexample:
  "BxDF_Sample_f test_env (TagThinDielectric \<lparr>thin_eta = 3 / 2\<rparr>) (Vector3f 0 0 1) (1 / 2) (Point2f 0 0)
      Radiance RT_All
     = Inr (Some (mk_BSDFSample (sp_const (12 / 13)) (Vector3f 0 0 (- 1)) (12 / 13)
                    SpecularTransmission))
   \<and> \<not> bs_pdfIsProportional (mk_BSDFSample (sp_const (12 / 13)) (Vector3f 0 0 (- 1)) (12 / 13)
                                  SpecularTransmission)
   \<and> BxDF_PDF test_env (TagThinDielectric \<lparr>thin_eta = 3 / 2\<rparr>) (Vector3f 0 0 1) (Vector3f 0 0 (- 1))
        Radiance RT_All \<noteq> Inr (12 / 13)
   \<and> BxDF_Sample_f test_env (TagDiffuse \<lparr>diffuse_R = sp_const (1 / 2)\<rparr>) (Vector3f 1 0 0) (1 / 2)
        (Point2f (1 / 2) (1 / 2)) Radiance RT_All
     = Inr (Some (mk_BSDFSample (sp_const (1 / (2 * pi))) (Vector3f 0 0 1) (1 / pi) DiffuseReflection))
   \<and> \<not> bs_pdfIsProportional (mk_BSDFSample (sp_const (1 / (2 * pi))) (Vector3f 0 0 1) (1 / pi)
                                  DiffuseReflection)
   \<and> BxDF_PDF test_env (TagDiffuse \<lparr>diffuse_R = sp_const (1 / 2)\<rparr>) (Vector3f 1 0 0) (Vector3f 0 0 1)
        Radiance RT_All \<noteq> Inr (1 / pi)"
  by (simp add: ThinDielectricBxDF_Sample_f_def ThinDielectricBxDF_PDF_def DiffuseBxDF_Sample_f_def
      DiffuseBxDF_PDF_def test_env_def Sqr_def AbsCosTheta_def vneg_def mk_BSDFSample_def
      sp_const_def sp_scale_def InvPi_def CosineHemispherePDF_def SameHemisphere_def Let_def)

subsection \<open>Absent results and restricted requests\<close>























































text \<open>
  Claim C4 at two failing inputs. Asked for transmission only, with \<open>wo\<close> the normal,
  \<open>uc = 1 / 4\<close> and \<open>u = (0, 0)\<close>, \<^verbatim>\<open>DisneyBxDF::Sample_f\<close> takes its specular branch and
  returns a sample flagged as a glossy reflection, for every collaborator and mode: it
  never reads \<^verbatim>\<open>sampleFlags\<close>. Asked for transmission only,
  \<^verbatim>\<open>NormalizedFresnelBxDF::Sample_f\<close>, a reflection lobe, yields through the facade a
  present value-initialised sample and not the empty optional: its return type is
  \<^verbatim>\<open>BSDFSample\<close>.
\<close>

theorem Sample_f_restriction_ignored:
  "BxDF_Sample_f env (TagDisney test_disney) (Vector3f 0 0 1) (1 / 4) (Point2f 0 0) mode RT_Transmission
     = Inr (Some (mk_BSDFSample (BRDF_F env test_disney (Vector3f 0 0 1) (Vector3f 0 0 1))
                    (Vector3f 0 0 1) (BRDF_PDF test_disney (Vector3f 0 0 1) (Vector3f 0 0 1))
                    GlossyReflection))
   \<and> IsReflective GlossyReflection \<and> \<not> has_Reflection RT_Transmission
   \<and> BxDF_Sample_f env (TagNormalizedFresnel b) wo uc u mode RT_Transmission
     = Inr (Some \<lparr>bs_f = sp_const 0, bs_wi = Vector3f 0 0 0, bs_pdf = 0, bs_flags = Unset,
                  bs_eta = 1, bs_pdfIsProportional = False\<rparr>)"
  by (simp add: test_disney_Sample_f IsReflective_def GlossyReflection_def
      NormalizedFresnelBxDF_Sample_f_def empty_BSDFSample_def)

end
